theory Spec2Isabelle
  imports Complex_Main
begin

section \<open>NumPy floating-point values\<close>

text \<open>
  The arrays of \<^verbatim>\<open>parametric_tsne.py\<close> and \<^verbatim>\<open>msp_tsne/parametric_tsne.py\<close> hold
  float64 values. A value is a finite number, one of the two infinities, or NaN. Finite
  arithmetic is modelled exactly over the reals (rounding and overflow of \<open>+\<close>, \<open>*\<close>, \<open>/\<close>
  are not modelled; signed zeros are identified). The special values follow NumPy, which
  never raises on a float operation: \<open>x / 0\<close> is an infinity or NaN, \<open>log 0\<close> is
  \<open>-inf\<close>, \<open>inf - inf\<close> and \<open>0 * inf\<close> are NaN, and every comparison with NaN is false.
  The one rounding effect kept is the underflow of \<open>np.exp\<close>, which the source itself
  singles out (\<^verbatim>\<open>sumP = np.sum(P)  # ACHTUNG! This could be zero!\<close>).
\<close>

datatype npfloat = Fin real | PInf | NInf | NaN

fun np_neg :: "npfloat \<Rightarrow> npfloat" where
  "np_neg (Fin x) = Fin (- x)"
| "np_neg PInf = NInf"
| "np_neg NInf = PInf"
| "np_neg NaN = NaN"

text \<open>The infinity with the sign of \<open>s\<close>; NaN when \<open>s\<close> is zero.\<close>

definition inf_of_sign :: "real \<Rightarrow> npfloat" where
  "inf_of_sign s = (if 0 < s then PInf else if s < 0 then NInf else NaN)"

fun np_add :: "npfloat \<Rightarrow> npfloat \<Rightarrow> npfloat" where
  "np_add (Fin x) (Fin y) = Fin (x + y)"
| "np_add NaN _ = NaN"
| "np_add _ NaN = NaN"
| "np_add PInf NInf = NaN"
| "np_add NInf PInf = NaN"
| "np_add PInf _ = PInf"
| "np_add _ PInf = PInf"
| "np_add NInf _ = NInf"
| "np_add _ NInf = NInf"

definition np_sub :: "npfloat \<Rightarrow> npfloat \<Rightarrow> npfloat" where
  "np_sub a b = np_add a (np_neg b)"

fun np_mul :: "npfloat \<Rightarrow> npfloat \<Rightarrow> npfloat" where
  "np_mul (Fin x) (Fin y) = Fin (x * y)"
| "np_mul NaN _ = NaN"
| "np_mul _ NaN = NaN"
| "np_mul PInf (Fin y) = inf_of_sign y"
| "np_mul (Fin x) PInf = inf_of_sign x"
| "np_mul NInf (Fin y) = inf_of_sign (- y)"
| "np_mul (Fin x) NInf = inf_of_sign (- x)"
| "np_mul PInf PInf = PInf"
| "np_mul NInf NInf = PInf"
| "np_mul PInf NInf = NInf"
| "np_mul NInf PInf = NInf"

fun np_div :: "npfloat \<Rightarrow> npfloat \<Rightarrow> npfloat" where
  "np_div (Fin x) (Fin y) = (if y = 0 then inf_of_sign x else Fin (x / y))"
| "np_div NaN _ = NaN"
| "np_div _ NaN = NaN"
| "np_div (Fin x) _ = Fin 0"
| "np_div PInf (Fin y) = (if 0 \<le> y then PInf else NInf)"
| "np_div NInf (Fin y) = (if 0 \<le> y then NInf else PInf)"
| "np_div _ _ = NaN"

text \<open>
  \<open>np.exp\<close> on float64 returns \<open>0.0\<close> for every argument below about \<open>-745.14\<close>
  (the smallest positive float64 is \<open>2^-1074\<close>); the model lets it underflow below
  \<open>-746\<close>.
\<close>

definition exp_underflow :: real where
  "exp_underflow = - 746"

fun np_exp :: "npfloat \<Rightarrow> npfloat" where
  "np_exp (Fin x) = (if x < exp_underflow then Fin 0 else Fin (exp x))"
| "np_exp PInf = PInf"
| "np_exp NInf = Fin 0"
| "np_exp NaN = NaN"

fun np_log :: "npfloat \<Rightarrow> npfloat" where
  "np_log (Fin x) = (if 0 < x then Fin (ln x) else if x = 0 then NInf else NaN)"
| "np_log PInf = PInf"
| "np_log NInf = NaN"
| "np_log NaN = NaN"

fun np_abs :: "npfloat \<Rightarrow> npfloat" where
  "np_abs (Fin x) = Fin \<bar>x\<bar>"
| "np_abs PInf = PInf"
| "np_abs NInf = PInf"
| "np_abs NaN = NaN"

fun np_lt :: "npfloat \<Rightarrow> npfloat \<Rightarrow> bool" where
  "np_lt (Fin x) (Fin y) = (x < y)"
| "np_lt NaN _ = False"
| "np_lt _ NaN = False"
| "np_lt PInf _ = False"
| "np_lt _ NInf = False"
| "np_lt _ _ = True"

definition np_gt :: "npfloat \<Rightarrow> npfloat \<Rightarrow> bool" where
  "np_gt a b = np_lt b a"

text \<open>The operator \<open>==\<close> on floats: NaN is not equal to itself.\<close>

definition np_eq :: "npfloat \<Rightarrow> npfloat \<Rightarrow> bool" where
  "np_eq a b = (a \<noteq> NaN \<and> a = b)"

fun np_maximum :: "npfloat \<Rightarrow> npfloat \<Rightarrow> npfloat" where
  "np_maximum NaN _ = NaN"
| "np_maximum _ NaN = NaN"
| "np_maximum a b = (if np_lt a b then b else a)"

definition np_isnan :: "npfloat \<Rightarrow> bool" where
  "np_isnan a = (a = NaN)"

definition np_isposinf :: "npfloat \<Rightarrow> bool" where
  "np_isposinf a = (a = PInf)"

definition np_isneginf :: "npfloat \<Rightarrow> bool" where
  "np_isneginf a = (a = NInf)"

definition np_isinf :: "npfloat \<Rightarrow> bool" where
  "np_isinf a = (a = PInf \<or> a = NInf)"

primrec np_sum :: "npfloat list \<Rightarrow> npfloat" where
  "np_sum [] = Fin 0"
| "np_sum (x # xs) = np_add x (np_sum xs)"

section \<open>Perplexity calibration\<close>

text \<open>
  \<^verbatim>\<open>Hbeta(D, beta)\<close>, the same in both files:
  \<^verbatim>\<open>P = np.exp(-D * beta); sumP = np.sum(P);
  H = np.log(sumP) + beta * np.sum(D * P) / sumP; P = P / sumP; return H, P\<close>
\<close>

definition Hbeta :: "npfloat list \<Rightarrow> npfloat \<Rightarrow> npfloat \<times> npfloat list" where
  "Hbeta D beta =
     (let P = map (\<lambda>d. np_exp (np_mul (np_neg d) beta)) D;
          sumP = np_sum P;
          H = np_add (np_log sumP) (np_div (np_mul beta (np_sum (map2 np_mul D P))) sumP)
      in (H, map (\<lambda>p. np_div p sumP) P))"

text \<open>The local variables of \<^verbatim>\<open>x2p_job\<close>.\<close>

record job_state =
  beta :: npfloat
  beta_min :: npfloat
  beta_max :: npfloat
  H :: npfloat
  thisP :: "npfloat list"
  Hdiff :: npfloat
  tries :: nat

text \<open>The state before the loop: \<open>beta = 1\<close>, an open bracket, one call of \<open>Hbeta\<close>.\<close>

definition job_init :: "npfloat list \<Rightarrow> npfloat \<Rightarrow> job_state" where
  "job_init Di logU =
     (let (H0, P0) = Hbeta Di (Fin 1)
      in \<lparr>beta = Fin 1, beta_min = NInf, beta_max = PInf, H = H0, thisP = P0,
          Hdiff = np_sub H0 logU, tries = 0\<rparr>)"

text \<open>The loop test \<^verbatim>\<open>tries < max_iteration and np.abs(Hdiff) > tol\<close>.\<close>

definition job_continue :: "nat \<Rightarrow> npfloat \<Rightarrow> job_state \<Rightarrow> bool" where
  "job_continue max_iteration tol s =
     (tries s < max_iteration \<and> np_gt (np_abs (Hdiff s)) tol)"

subsection \<open>\<^verbatim>\<open>parametric_tsne.py\<close>\<close>

text \<open>
  The bracket update of \<^verbatim>\<open>parametric_tsne.py\<close> (lines 47 to 58), which tests the
  bracket with \<open>np.isposinf\<close> and \<open>np.isneginf\<close>.
\<close>

definition adjust_beta :: "job_state \<Rightarrow> job_state" where
  "adjust_beta s =
     (if np_gt (Hdiff s) (Fin 0) then
        s\<lparr>beta_min := beta s,
          beta := (if np_isposinf (beta_max s) then np_mul (beta s) (Fin 2)
                   else np_div (np_add (beta s) (beta_max s)) (Fin 2))\<rparr>
      else
        s\<lparr>beta_max := beta s,
          beta := (if np_isneginf (beta_min s) then np_div (beta s) (Fin 2)
                   else np_div (np_add (beta s) (beta_min s)) (Fin 2))\<rparr>)"

text \<open>
  One pass through the loop body. The flag is true when the body leaves through
  \<^verbatim>\<open>break\<close>: the new row holds a NaN, \<open>thisP\<close> is set back to its copy
  \<open>thisP_old\<close>, and neither \<open>Hdiff\<close> nor \<open>tries\<close> is updated.
\<close>

definition job_body :: "npfloat list \<Rightarrow> npfloat \<Rightarrow> job_state \<Rightarrow> job_state \<times> bool" where
  "job_body Di logU s =
     (let thisP_old = thisP s;
          s1 = adjust_beta s;
          (H1, P1) = Hbeta Di (beta s1)
      in if list_ex np_isnan P1 then (s1\<lparr>H := H1, thisP := thisP_old\<rparr>, True)
         else (s1\<lparr>H := H1, thisP := P1, Hdiff := np_sub H1 logU, tries := tries s1 + 1\<rparr>, False))"

definition job_step :: "npfloat list \<Rightarrow> npfloat \<Rightarrow> job_state \<Rightarrow> job_state" where
  "job_step Di logU s = fst (job_body Di logU s)"

function job_loop :: "npfloat list \<Rightarrow> npfloat \<Rightarrow> nat \<Rightarrow> npfloat \<Rightarrow> job_state \<Rightarrow> job_state" where
  "job_loop Di logU max_iteration tol s =
     (if job_continue max_iteration tol s then
        (if snd (job_body Di logU s) then job_step Di logU s
         else job_loop Di logU max_iteration tol (job_step Di logU s))
      else s)"
  by pat_completeness auto

lemma tries_adjust_beta: "tries (adjust_beta s) = tries s"
  by (simp add: adjust_beta_def)

lemma tries_job_body:
  "\<not> snd (job_body Di logU s) \<Longrightarrow> tries (job_step Di logU s) = Suc (tries s)"
  by (auto simp: job_step_def job_body_def Let_def tries_adjust_beta split: prod.splits if_splits)

termination job_loop
  by (relation "measure (\<lambda>(Di, logU, max_iteration, tol, s). max_iteration - tries s)")
     (auto simp: job_continue_def tries_job_body)

declare job_loop.simps [simp del]

text \<open>
  \<^verbatim>\<open>x2p_job(data, max_iteration=50, tol=1e-5)\<close> with \<open>data = (i, Di, logU)\<close>; it
  returns \<open>(i, thisP)\<close>.
\<close>

definition x2p_job :: "nat \<Rightarrow> npfloat \<Rightarrow> nat \<times> npfloat list \<times> npfloat \<Rightarrow> nat \<times> npfloat list" where
  "x2p_job max_iteration tol data =
     (case data of (i, Di, logU) \<Rightarrow>
        (i, thisP (job_loop Di logU max_iteration tol (job_init Di logU))))"

subsection \<open>\<^verbatim>\<open>msp_tsne/parametric_tsne.py\<close>\<close>

text \<open>
  The bracket update of the \<open>msp_tsne\<close> file (lines 45 to 56) tests the bracket with
  \<open>np.isinf\<close>, and its loop body has no NaN test and no \<^verbatim>\<open>break\<close>.
\<close>

definition msp_adjust_beta :: "job_state \<Rightarrow> job_state" where
  "msp_adjust_beta s =
     (if np_gt (Hdiff s) (Fin 0) then
        s\<lparr>beta_min := beta s,
          beta := (if np_isinf (beta_max s) then np_mul (beta s) (Fin 2)
                   else np_div (np_add (beta s) (beta_max s)) (Fin 2))\<rparr>
      else
        s\<lparr>beta_max := beta s,
          beta := (if np_isinf (beta_min s) then np_div (beta s) (Fin 2)
                   else np_div (np_add (beta s) (beta_min s)) (Fin 2))\<rparr>)"

definition msp_job_body :: "npfloat list \<Rightarrow> npfloat \<Rightarrow> job_state \<Rightarrow> job_state" where
  "msp_job_body Di logU s =
     (let s1 = msp_adjust_beta s;
          (H1, P1) = Hbeta Di (beta s1)
      in s1\<lparr>H := H1, thisP := P1, Hdiff := np_sub H1 logU, tries := tries s1 + 1\<rparr>)"

function msp_job_loop :: "npfloat list \<Rightarrow> npfloat \<Rightarrow> nat \<Rightarrow> npfloat \<Rightarrow> job_state \<Rightarrow> job_state" where
  "msp_job_loop Di logU max_iteration tol s =
     (if job_continue max_iteration tol s
      then msp_job_loop Di logU max_iteration tol (msp_job_body Di logU s)
      else s)"
  by pat_completeness auto

lemma tries_msp_job_body: "tries (msp_job_body Di logU s) = Suc (tries s)"
  by (simp add: msp_job_body_def msp_adjust_beta_def Let_def split: prod.splits)

termination msp_job_loop
  by (relation "measure (\<lambda>(Di, logU, max_iteration, tol, s). max_iteration - tries s)")
     (auto simp: job_continue_def tries_msp_job_body)

declare msp_job_loop.simps [simp del]

definition msp_x2p_job :: "nat \<Rightarrow> npfloat \<Rightarrow> nat \<times> npfloat list \<times> npfloat \<Rightarrow> nat \<times> npfloat list" where
  "msp_x2p_job max_iteration tol data =
     (case data of (i, Di, logU) \<Rightarrow>
        (i, thisP (msp_job_loop Di logU max_iteration tol (job_init Di logU))))"

subsection \<open>Predicates on the search state\<close>

fun np_within :: "real \<Rightarrow> real \<Rightarrow> npfloat \<Rightarrow> bool" where
  "np_within lo hi (Fin x) = (lo \<le> x \<and> x \<le> hi)"
| "np_within lo hi _ = False"

text \<open>\<open>beta\<close> and the finite ends of the bracket lie between \<open>lo\<close> and \<open>hi\<close>.\<close>

definition bracket_in :: "real \<Rightarrow> real \<Rightarrow> job_state \<Rightarrow> bool" where
  "bracket_in lo hi s =
     (np_within lo hi (beta s) \<and>
      (beta_min s = NInf \<or> np_within lo hi (beta_min s)) \<and>
      (beta_max s = PInf \<or> np_within lo hi (beta_max s)))"

text \<open>\<open>H\<close> and \<open>thisP\<close> are what \<open>Hbeta\<close> returns at the current \<open>beta\<close>.\<close>

definition row_at :: "npfloat list \<Rightarrow> job_state \<Rightarrow> bool" where
  "row_at Di s = (H s = fst (Hbeta Di (beta s)) \<and> thisP s = snd (Hbeta Di (beta s)))"

text \<open>No entry of the row is NaN (\<^verbatim>\<open>not np.isnan(P).any()\<close>).\<close>

definition nan_free :: "npfloat list \<Rightarrow> bool" where
  "nan_free P = (\<not> list_ex np_isnan P)"

section \<open>Pairwise distances and the similarity matrix\<close>

text \<open>A two-dimensional array is the list of its rows.\<close>

type_synonym matrix = "npfloat list list"

text \<open>
  The distance matrix of \<^verbatim>\<open>x2p\<close>:
  \<^verbatim>\<open>sum_X = np.sum(np.square(X), axis=1)\<close> and
  \<^verbatim>\<open>D = sum_X + (sum_X.reshape([-1, 1]) - 2 * np.dot(X, X.T))\<close>, so that
  \<open>D[i][j] = sum_X[j] + (sum_X[i] - 2 * (X[i] . X[j]))\<close>.
\<close>

definition sum_sq :: "npfloat list \<Rightarrow> npfloat" where
  "sum_sq x = np_sum (map (\<lambda>a. np_mul a a) x)"

definition np_dot :: "npfloat list \<Rightarrow> npfloat list \<Rightarrow> npfloat" where
  "np_dot x y = np_sum (map2 np_mul x y)"

definition sq_dists :: "matrix \<Rightarrow> matrix" where
  "sq_dists X =
     map (\<lambda>xi. map (\<lambda>xj. np_add (sum_sq xj) (np_sub (sum_sq xi) (np_mul (Fin 2) (np_dot xi xj)))) X) X"

text \<open>
  \<^verbatim>\<open>idx = (1 - np.eye(n)).astype(bool)\<close> selects the entries off the diagonal:
  \<^verbatim>\<open>D[idx].reshape([n, -1])\<close> is row \<open>i\<close> of \<open>D\<close> without its entry \<open>i\<close>, and
  \<^verbatim>\<open>P[i, idx[i]] = thisP\<close> writes a row of \<open>n - 1\<close> values around the diagonal entry of
  a row of zeros.
\<close>

definition drop_diag :: "nat \<Rightarrow> 'a list \<Rightarrow> 'a list" where
  "drop_diag i row = take i row @ drop (Suc i) row"

definition fill_off_diag :: "nat \<Rightarrow> npfloat list \<Rightarrow> npfloat list" where
  "fill_off_diag i row = take i row @ Fin 0 # drop i row"

text \<open>
  \<^verbatim>\<open>x2p(X, perplexity)\<close>, for the row calibration \<open>job\<close> of either file. It is called on
  non-empty blocks only (on an empty array the \<^verbatim>\<open>reshape\<close> raises).
\<close>

definition x2p_rows ::
  "(nat \<times> npfloat list \<times> npfloat \<Rightarrow> nat \<times> npfloat list) \<Rightarrow> matrix \<Rightarrow> npfloat \<Rightarrow> matrix" where
  "x2p_rows job X perplexity =
     (let n = length X;
          logU = np_log perplexity;
          D = sq_dists X;
          D = map (\<lambda>i. drop_diag i (D ! i)) [0..<n]
      in map (\<lambda>i. fill_off_diag i (snd (job (i, D ! i, logU)))) [0..<n])"

text \<open>The tolerance \<^verbatim>\<open>tol=1e-5\<close> and the budget \<^verbatim>\<open>max_iteration=50\<close> are the defaults.\<close>

definition default_tol :: npfloat where
  "default_tol = Fin (1 / 100000)"

definition x2p :: "matrix \<Rightarrow> npfloat \<Rightarrow> matrix" where
  "x2p X perplexity = x2p_rows (x2p_job 50 default_tol) X perplexity"

definition msp_x2p :: "matrix \<Rightarrow> npfloat \<Rightarrow> matrix" where
  "msp_x2p X perplexity = x2p_rows (msp_x2p_job 50 default_tol) X perplexity"

text \<open>
  The four statements of the loop body of \<^verbatim>\<open>calculate_P\<close> and \<^verbatim>\<open>_calculate_P\<close>:
  \<^verbatim>\<open>P_batch[np.isnan(P_batch)] = 0\<close>,
  \<^verbatim>\<open>P_batch = P_batch + P_batch.T\<close>,
  \<^verbatim>\<open>P_batch = P_batch / P_batch.sum()\<close> and
  \<^verbatim>\<open>P_batch = np.maximum(P_batch, eps)\<close>.
\<close>

definition nan_to_zero :: "matrix \<Rightarrow> matrix" where
  "nan_to_zero P = map (map (\<lambda>p. if np_isnan p then Fin 0 else p)) P"

definition mat_T :: "matrix \<Rightarrow> matrix" where
  "mat_T P = map (\<lambda>j. map (\<lambda>row. row ! j) P) [0..<length P]"

definition symmetrize :: "matrix \<Rightarrow> matrix" where
  "symmetrize P = map2 (map2 np_add) P (mat_T P)"

definition mat_sum :: "matrix \<Rightarrow> npfloat" where
  "mat_sum P = np_sum (concat P)"

definition normalize :: "matrix \<Rightarrow> matrix" where
  "normalize P = map (map (\<lambda>p. np_div p (mat_sum P))) P"

definition floor_at :: "npfloat \<Rightarrow> matrix \<Rightarrow> matrix" where
  "floor_at eps P = map (map (\<lambda>p. np_maximum p eps)) P"

text \<open>The similarity matrix of one block; \<open>eps\<close> is \<open>1e-8\<close> in one file, \<open>1e-12\<close> in the other.\<close>

definition P_batch :: "npfloat \<Rightarrow> matrix \<Rightarrow> matrix" where
  "P_batch eps P = floor_at eps (normalize (symmetrize (nan_to_zero P)))"

definition calculate_P_batch :: "matrix \<Rightarrow> npfloat \<Rightarrow> matrix" where
  "calculate_P_batch Xb perplexity = P_batch (Fin (1 / 10 ^ 8)) (x2p Xb perplexity)"

definition msp_calculate_P_batch :: "matrix \<Rightarrow> npfloat \<Rightarrow> matrix" where
  "msp_calculate_P_batch Xb perplexity = P_batch (Fin (1 / 10 ^ 12)) (msp_x2p Xb perplexity)"

subsection \<open>Predicates on matrices and on the search state of an example\<close>

text \<open>An \<open>n\<close> by \<open>n\<close> array.\<close>

definition square :: "nat \<Rightarrow> matrix \<Rightarrow> bool" where
  "square n P = (length P = n \<and> (\<forall>i<n. length (P ! i) = n))"

text \<open>
  The search on the one-entry distance row \<open>[1]\<close> with \<open>logU = ln 30\<close>: the entropy is \<open>0\<close>
  at every \<open>beta\<close>, so \<open>beta\<close> is halved until the budget is spent, and the row is \<open>[1]\<close>.
\<close>

definition single_row_state :: "job_state \<Rightarrow> bool" where
  "single_row_state s =
     (np_within 0 1 (beta s) \<and> beta s \<noteq> Fin 0 \<and> beta_min s = NInf \<and>
      Hdiff s = Fin (- ln 30) \<and> thisP s = [Fin 1])"

section \<open>The estimator\<close>

text \<open>
  The exceptions the code can raise: \<open>NotFittedError\<close> is raised by \<^verbatim>\<open>transform\<close>; the
  others come from Python and NumPy (\<open>n % 0\<close>, \<open>range\<close> and \<open>np.arange\<close> with step zero,
  an assignment between arrays of shapes that do not fit, \<open>None\<close> where a number is
  needed).
\<close>

datatype error = NotFittedError | ZeroDivisionError | ValueError | TypeError

text \<open>
  The collaborators the code calls and this theory does not describe: the Keras network
  (\<^verbatim>\<open>_build_model\<close> with the input width, the hidden widths, the output width and the
  two attributes the loss \<^verbatim>\<open>_kl_divergence\<close> reads, \<open>alpha\<close> and the batch size;
  \<^verbatim>\<open>train_on_batch\<close>, which returns the loss and updates the network; the forward pass
  of one sample) and \<^verbatim>\<open>np.random.permutation\<close> with the state of its generator.
\<close>

record ('net, 'rng) backend =
  build :: "nat \<Rightarrow> nat list \<Rightarrow> nat \<Rightarrow> npfloat \<Rightarrow> nat \<Rightarrow> 'net"
  train_on_batch :: "'net \<Rightarrow> matrix \<Rightarrow> matrix \<Rightarrow> 'net \<times> npfloat"
  forward :: "'net \<Rightarrow> npfloat list \<Rightarrow> npfloat list"
  permutation :: "'rng \<Rightarrow> nat \<Rightarrow> nat list \<times> 'rng"

text \<open>\<^verbatim>\<open>model.predict(X)\<close>: the forward pass of every row.\<close>

definition predict :: "('net, 'rng) backend \<Rightarrow> 'net \<Rightarrow> matrix \<Rightarrow> matrix" where
  "predict be nw X = map (forward be nw) X"

text \<open>
  The attributes both classes share; \<open>model\<close> is the attribute \<^verbatim>\<open>_model\<close>. The counts are
  natural numbers; \<open>early_stopping_epochs\<close> is a float, since its default is \<open>np.inf\<close>.
\<close>

record 'net estimator =
  n_components :: nat
  perplexity :: npfloat
  n_iter :: nat
  verbose :: int
  early_exaggeration_epochs :: nat
  early_exaggeration_value :: npfloat
  early_stopping_epochs :: npfloat
  early_stopping_min_improvement :: npfloat
  alpha :: npfloat
  logdir :: "string option"
  model :: "'net option"

text \<open>\<^verbatim>\<open>parametric_tsne.py\<close> adds the attribute \<^verbatim>\<open>_batch_size\<close>.\<close>

record 'net tsne = "'net estimator" +
  fit_batch_size :: "nat option"

text \<open>The \<open>msp_tsne\<close> file adds \<open>batch_size\<close> and the three hidden widths.\<close>

record 'net msp_tsne = "'net estimator" +
  batch_size :: "nat option"
  nl1 :: nat
  nl2 :: nat
  nl3 :: nat

text \<open>The two constructors \<^verbatim>\<open>__init__\<close>, each with its keyword arguments in order.\<close>

definition ParametricTSNE ::
  "nat \<Rightarrow> npfloat \<Rightarrow> nat \<Rightarrow> nat \<Rightarrow> npfloat \<Rightarrow> npfloat \<Rightarrow> npfloat \<Rightarrow> npfloat \<Rightarrow>
   string option \<Rightarrow> int \<Rightarrow> 'net tsne" where
  "ParametricTSNE n_components' perplexity' n_iter' early_exaggeration_epochs'
     early_exaggeration_value' early_stopping_epochs' early_stopping_min_improvement' alpha'
     logdir' verbose' =
     \<lparr>n_components = n_components', perplexity = perplexity', n_iter = n_iter',
      verbose = verbose', early_exaggeration_epochs = early_exaggeration_epochs',
      early_exaggeration_value = early_exaggeration_value',
      early_stopping_epochs = early_stopping_epochs',
      early_stopping_min_improvement = early_stopping_min_improvement', alpha = alpha',
      logdir = logdir', model = None, fit_batch_size = None\<rparr>"

definition msp_ParametricTSNE ::
  "nat \<Rightarrow> npfloat \<Rightarrow> nat \<Rightarrow> nat option \<Rightarrow> nat \<Rightarrow> npfloat \<Rightarrow> npfloat \<Rightarrow> npfloat \<Rightarrow> npfloat \<Rightarrow>
   nat \<Rightarrow> nat \<Rightarrow> nat \<Rightarrow> string option \<Rightarrow> int \<Rightarrow> 'net msp_tsne" where
  "msp_ParametricTSNE n_components' perplexity' n_iter' batch_size' early_exaggeration_epochs'
     early_exaggeration_value' early_stopping_epochs' early_stopping_min_improvement' alpha'
     nl1' nl2' nl3' logdir' verbose' =
     \<lparr>n_components = n_components', perplexity = perplexity', n_iter = n_iter',
      verbose = verbose', early_exaggeration_epochs = early_exaggeration_epochs',
      early_exaggeration_value = early_exaggeration_value',
      early_stopping_epochs = early_stopping_epochs',
      early_stopping_min_improvement = early_stopping_min_improvement', alpha = alpha',
      logdir = logdir', model = None, batch_size = batch_size', nl1 = nl1', nl2 = nl2',
      nl3 = nl3'\<rparr>"

text \<open>The constructors called without arguments.\<close>

definition default_tsne :: "'net tsne" where
  "default_tsne = ParametricTSNE 2 (Fin 30) 1000 50 (Fin 4) PInf (Fin (1 / 100)) (Fin 1) (Some ''.'') 0"

definition msp_default_tsne :: "'net msp_tsne" where
  "msp_default_tsne =
     msp_ParametricTSNE 2 (Fin 30) 1000 (Some 500) 50 (Fin 4) PInf (Fin (1 / 100)) (Fin 1)
       1000 500 250 None 0"

text \<open>
  \<^verbatim>\<open>transform(X)\<close>, the same in both files but for the batch size handed to
  \<^verbatim>\<open>predict\<close>.
\<close>

definition transform ::
  "('net, 'rng) backend \<Rightarrow> ('net, 'z) estimator_scheme \<Rightarrow> matrix \<Rightarrow> error + matrix" where
  "transform be e X =
     (case model e of None \<Rightarrow> Inl NotFittedError | Some nw \<Rightarrow> Inr (predict be nw X))"

subsection \<open>The matrix of all blocks\<close>

text \<open>\<^verbatim>\<open>range(0, n, batch_size)\<close> for a positive step.\<close>

definition block_starts :: "nat \<Rightarrow> nat \<Rightarrow> nat list" where
  "block_starts n bs = map (\<lambda>k. k * bs) [0..<(n + bs - 1) div bs]"

text \<open>The slice \<^verbatim>\<open>A[i:i + batch_size]\<close>.\<close>

definition slice_rows :: "nat \<Rightarrow> nat \<Rightarrow> 'a list \<Rightarrow> 'a list" where
  "slice_rows i bs A = take bs (drop i A)"

text \<open>
  \<^verbatim>\<open>P[i:i + batch_size] = P_batch\<close> writes into rows of width \<open>batch_size\<close>. A block of
  \<open>batch_size\<close> rows fits; a block of one row is broadcast along its row; any other
  block raises.
\<close>

definition place_batch :: "nat \<Rightarrow> matrix \<Rightarrow> error + matrix" where
  "place_batch bs Pb =
     (if length Pb = bs then Inr Pb
      else if length Pb = 1 then Inr [replicate bs (Pb ! 0 ! 0)]
      else Inl ValueError)"

fun place_batches :: "nat \<Rightarrow> matrix list \<Rightarrow> error + matrix" where
  "place_batches bs [] = Inr []"
| "place_batches bs (Pb # rest) =
     (case place_batch bs Pb of
        Inl err \<Rightarrow> Inl err
      | Inr rows \<Rightarrow>
          (case place_batches bs rest of Inl err \<Rightarrow> Inl err | Inr below \<Rightarrow> Inr (rows @ below)))"

text \<open>
  \<^verbatim>\<open>calculate_P(X, batch_size, perplexity)\<close> loops over \<^verbatim>\<open>range(0, n, batch_size)\<close>,
  which raises \<open>ValueError\<close> for a step of zero; \<^verbatim>\<open>_calculate_P(X)\<close> loops over
  \<^verbatim>\<open>np.arange(0, n, self.batch_size)\<close>, which raises \<open>ZeroDivisionError\<close>.
\<close>

definition calculate_P :: "matrix \<Rightarrow> nat \<Rightarrow> npfloat \<Rightarrow> error + matrix" where
  "calculate_P X bs perp =
     (if bs = 0 then Inl ValueError
      else place_batches bs
             (map (\<lambda>i. calculate_P_batch (slice_rows i bs X) perp) (block_starts (length X) bs)))"

definition msp_calculate_P :: "matrix \<Rightarrow> nat \<Rightarrow> npfloat \<Rightarrow> error + matrix" where
  "msp_calculate_P X bs perp =
     (if bs = 0 then Inl ZeroDivisionError
      else place_batches bs
             (map (\<lambda>i. msp_calculate_P_batch (slice_rows i bs X) perp) (block_starts (length X) bs)))"

subsection \<open>The training loop\<close>

text \<open>The three variables of early stopping, and the other variables of the loop of \<^verbatim>\<open>fit\<close>.\<close>

record es_state =
  es_loss :: npfloat
  es_patience :: npfloat
  es_stop :: bool

record ('net, 'rng) train_state = es_state +
  epoch :: nat
  net :: 'net
  rng :: 'rng
  data_X :: matrix
  sim_P :: matrix

text \<open>
  The test \<^verbatim>\<open>loss < es_loss and np.abs(loss - es_loss) > self.early_stopping_min_improvement\<close>
  and the statements after it (the same in both files):
  \<^verbatim>\<open>es_loss = loss; es_patience = self.early_stopping_epochs\<close> or \<^verbatim>\<open>es_patience -= 1\<close>,
  then \<^verbatim>\<open>if es_patience == 0: es_stop = True\<close>.
\<close>

definition improved :: "npfloat \<Rightarrow> npfloat \<Rightarrow> npfloat \<Rightarrow> bool" where
  "improved min_improvement loss best =
     (np_lt loss best \<and> np_gt (np_abs (np_sub loss best)) min_improvement)"

definition early_stopping ::
  "('net, 'z) estimator_scheme \<Rightarrow> npfloat \<Rightarrow> 's es_state_scheme \<Rightarrow> 's es_state_scheme" where
  "early_stopping e loss s =
     (let s1 = (if improved (early_stopping_min_improvement e) loss (es_loss s)
                then s\<lparr>es_loss := loss, es_patience := early_stopping_epochs e\<rparr>
                else s\<lparr>es_patience := np_sub (es_patience s) (Fin 1)\<rparr>)
      in if np_eq (es_patience s1) (Fin 0) then s1\<lparr>es_stop := True\<rparr> else s1)"

text \<open>
  Early exaggeration on the matrix of the epoch:
  \<^verbatim>\<open>if epoch < self.early_exaggeration_epochs: P *= self.early_exaggeration_value\<close>.
\<close>

definition mat_scale :: "npfloat \<Rightarrow> matrix \<Rightarrow> matrix" where
  "mat_scale v A = map (map (\<lambda>p. np_mul p v)) A"

definition exaggerate :: "('net, 'z) estimator_scheme \<Rightarrow> nat \<Rightarrow> matrix \<Rightarrow> matrix" where
  "exaggerate e ep A =
     (if ep < early_exaggeration_epochs e then mat_scale (early_exaggeration_value e) A else A)"

text \<open>The column count \<open>X.shape[1]\<close>; an array without rows is given the count zero.\<close>

definition n_feature :: "matrix \<Rightarrow> nat" where
  "n_feature X = (case X of [] \<Rightarrow> 0 | x # _ \<Rightarrow> length x)"

text \<open>Indexing with an index array: \<^verbatim>\<open>A[idxs]\<close> and \<^verbatim>\<open>A[:, idxs]\<close>.\<close>

definition take_rows :: "nat list \<Rightarrow> 'a list \<Rightarrow> 'a list" where
  "take_rows idxs A = map (\<lambda>k. A ! k) idxs"

definition take_cols :: "nat list \<Rightarrow> 'a list list \<Rightarrow> 'a list list" where
  "take_cols idxs A = map (take_rows idxs) A"

subsection \<open>\<^verbatim>\<open>fit\<close> in the \<open>msp_tsne\<close> file\<close>

text \<open>
  The body of the loop over the batches of one epoch: the slices of the data and of the
  matrix, one random permutation applied to the rows of the data and to the rows and
  columns of the matrix, one training step.
\<close>

definition msp_batch_step ::
  "('net, 'rng) backend \<Rightarrow> nat \<Rightarrow> matrix \<Rightarrow> matrix \<Rightarrow> nat \<Rightarrow>
   'net \<times> 'rng \<times> npfloat \<times> nat \<Rightarrow> 'net \<times> 'rng \<times> npfloat \<times> nat" where
  "msp_batch_step be bs X A i acc =
     (case acc of (nw, g, loss, n_batches) \<Rightarrow>
        (let X_batch = slice_rows i bs X;
             A_batch = slice_rows i bs A;
             (p_idxs, g1) = permutation be g bs;
             X_batch = take_rows p_idxs X_batch;
             A_batch = take_rows p_idxs A_batch;
             A_batch = take_cols p_idxs A_batch;
             (nw1, l) = train_on_batch be nw X_batch A_batch
         in (nw1, g1, np_add loss l, n_batches + 1)))"

text \<open>
  One pass through the loop of \<^verbatim>\<open>fit\<close>: \<^verbatim>\<open>_P = P.copy()\<close> and early exaggeration on
  the copy (\<open>msp_epoch_P\<close>), the batches (\<open>msp_batches\<close>), \<^verbatim>\<open>loss /= n_batches\<close>
  (\<open>msp_epoch_loss\<close>), early stopping, \<^verbatim>\<open>epoch += 1\<close>. The matrix \<open>P\<close> itself
  (\<open>sim_P\<close>) is not assigned. The loop is entered with at least one batch.
\<close>

definition msp_epoch_P :: "'net msp_tsne \<Rightarrow> ('net, 'rng) train_state \<Rightarrow> matrix" where
  "msp_epoch_P e s = exaggerate e (epoch s) (sim_P s)"

definition msp_batches ::
  "('net, 'rng) backend \<Rightarrow> 'net msp_tsne \<Rightarrow> nat \<Rightarrow> ('net, 'rng) train_state \<Rightarrow>
   'net \<times> 'rng \<times> npfloat \<times> nat" where
  "msp_batches be e bs s =
     foldl (\<lambda>acc i. msp_batch_step be bs (data_X s) (msp_epoch_P e s) i acc)
       (net s, rng s, Fin 0, 0) (block_starts (length (data_X s)) bs)"

definition msp_epoch_loss ::
  "('net, 'rng) backend \<Rightarrow> 'net msp_tsne \<Rightarrow> nat \<Rightarrow> ('net, 'rng) train_state \<Rightarrow> npfloat" where
  "msp_epoch_loss be e bs s =
     (case msp_batches be e bs s of (nw1, g1, loss, n_batches) \<Rightarrow>
        np_div loss (Fin (real n_batches)))"

definition msp_epoch ::
  "('net, 'rng) backend \<Rightarrow> 'net msp_tsne \<Rightarrow> nat \<Rightarrow> ('net, 'rng) train_state \<Rightarrow>
   ('net, 'rng) train_state" where
  "msp_epoch be e bs s =
     (case msp_batches be e bs s of (nw1, g1, loss, n_batches) \<Rightarrow>
        (early_stopping e (msp_epoch_loss be e bs s) s)\<lparr>epoch := epoch s + 1, net := nw1, rng := g1\<rparr>)"

function msp_fit_loop ::
  "('net, 'rng) backend \<Rightarrow> 'net msp_tsne \<Rightarrow> nat \<Rightarrow> ('net, 'rng) train_state \<Rightarrow>
   ('net, 'rng) train_state" where
  "msp_fit_loop be e bs s =
     (if epoch s < n_iter e \<and> \<not> es_stop s then msp_fit_loop be e bs (msp_epoch be e bs s) else s)"
  by pat_completeness auto

lemma epoch_early_stopping: "epoch (early_stopping e loss s) = epoch s"
  by (simp add: early_stopping_def Let_def)

lemma epoch_msp_epoch: "epoch (msp_epoch be e bs s) = Suc (epoch s)"
  by (simp add: msp_epoch_def case_prod_beta epoch_early_stopping)

termination msp_fit_loop
  by (relation "measure (\<lambda>(be, e, bs, s). n_iter e - epoch s)") (auto simp: epoch_msp_epoch)

declare msp_fit_loop.simps [simp del]

text \<open>
  Lines 137 to 145 of \<^verbatim>\<open>fit\<close>: the batch size is set to the sample count when it is
  \<open>None\<close> or larger, and otherwise the samples beyond a multiple of the batch size are
  dropped (\<^verbatim>\<open>X = X[:-m]\<close>). The attribute \<open>batch_size\<close> of the estimator is assigned.
\<close>

definition msp_adjust :: "'net msp_tsne \<Rightarrow> matrix \<Rightarrow> error + 'net msp_tsne \<times> matrix" where
  "msp_adjust e X =
     (case batch_size e of
        None \<Rightarrow> Inr (e\<lparr>batch_size := Some (length X)\<rparr>, X)
      | Some b \<Rightarrow>
          if length X < b then Inr (e\<lparr>batch_size := Some (length X)\<rparr>, X)
          else if b = 0 then Inl ZeroDivisionError
          else (let m = length X mod b
                in if 0 < m then Inr (e, take (length X - m) X) else Inr (e, X)))"

text \<open>
  The rest of \<^verbatim>\<open>fit\<close>, which reads the batch size from the estimator: the network is
  built, \<open>P\<close> is computed once, the loop runs from the state \<open>msp_train_init\<close>, and the
  estimator is returned with its network.
\<close>

definition msp_train_init ::
  "('net, 'rng) backend \<Rightarrow> 'net msp_tsne \<Rightarrow> matrix \<Rightarrow> 'rng \<Rightarrow> nat \<Rightarrow> matrix \<Rightarrow>
   ('net, 'rng) train_state" where
  "msp_train_init be e X g bs A =
     \<lparr>es_loss = PInf, es_patience = early_stopping_epochs e, es_stop = False, epoch = 0,
      net = build be (n_feature X) [nl1 e, nl2 e, nl3 e] (n_components e) (alpha e) bs,
      rng = g, data_X = X, sim_P = A\<rparr>"

definition msp_train ::
  "('net, 'rng) backend \<Rightarrow> 'net msp_tsne \<Rightarrow> matrix \<Rightarrow> 'rng \<Rightarrow> error + 'net msp_tsne \<times> 'rng" where
  "msp_train be e X g =
     (case batch_size e of
        None \<Rightarrow> Inl TypeError
      | Some bs \<Rightarrow>
          (case msp_calculate_P X bs (perplexity e) of
             Inl err \<Rightarrow> Inl err
           | Inr A \<Rightarrow>
               (let s = msp_fit_loop be e bs (msp_train_init be e X g bs A)
                in Inr (e\<lparr>model := Some (net s)\<rparr>, rng s))))"

definition msp_fit ::
  "('net, 'rng) backend \<Rightarrow> 'net msp_tsne \<Rightarrow> matrix \<Rightarrow> 'rng \<Rightarrow> error + 'net msp_tsne \<times> 'rng" where
  "msp_fit be e X g =
     (case msp_adjust e X of Inl err \<Rightarrow> Inl err | Inr (e1, X1) \<Rightarrow> msp_train be e1 X1 g)"

text \<open>\<^verbatim>\<open>fit_transform(X)\<close>: \<^verbatim>\<open>self.fit(X, y)\<close>, then \<^verbatim>\<open>self.transform(X)\<close> on the same \<open>X\<close>.\<close>

definition msp_fit_transform ::
  "('net, 'rng) backend \<Rightarrow> 'net msp_tsne \<Rightarrow> matrix \<Rightarrow> 'rng \<Rightarrow>
   error + matrix \<times> 'net msp_tsne \<times> 'rng" where
  "msp_fit_transform be e X g =
     (case msp_fit be e X g of
        Inl err \<Rightarrow> Inl err
      | Inr (e1, g1) \<Rightarrow>
          (case transform be e1 X of Inl err \<Rightarrow> Inl err | Inr Y \<Rightarrow> Inr (Y, e1, g1)))"

subsection \<open>\<^verbatim>\<open>fit\<close> in \<^verbatim>\<open>parametric_tsne.py\<close>\<close>

text \<open>The loop over the batches of one epoch: a training step on each pair of slices.\<close>

definition batch_step ::
  "('net, 'rng) backend \<Rightarrow> nat \<Rightarrow> matrix \<Rightarrow> matrix \<Rightarrow> nat \<Rightarrow>
   'net \<times> npfloat \<times> nat \<Rightarrow> 'net \<times> npfloat \<times> nat" where
  "batch_step be bs X A i acc =
     (case acc of (nw, loss, n_batches) \<Rightarrow>
        (let (nw1, l) = train_on_batch be nw (slice_rows i bs X) (slice_rows i bs A)
         in (nw1, np_add loss l, n_batches + 1)))"

text \<open>
  One pass through the loop of \<^verbatim>\<open>fit\<close>: the data is shuffled, \<open>P\<close> is computed from the
  shuffled data and scaled in place during early exaggeration, the batches are trained
  on; \<^verbatim>\<open>loss /= n_batches\<close> divides a Python float and raises when there was no batch.
\<close>

definition fit_batches ::
  "('net, 'rng) backend \<Rightarrow> nat \<Rightarrow> matrix \<Rightarrow> matrix \<Rightarrow> 'net \<Rightarrow> 'net \<times> npfloat \<times> nat" where
  "fit_batches be bs X A nw =
     foldl (\<lambda>acc i. batch_step be bs X A i acc) (nw, Fin 0, 0) (block_starts (length X) bs)"

definition fit_epoch ::
  "('net, 'rng) backend \<Rightarrow> 'net tsne \<Rightarrow> nat \<Rightarrow> ('net, 'rng) train_state \<Rightarrow>
   error + ('net, 'rng) train_state" where
  "fit_epoch be e bs s =
     (let (new_indices, g1) = permutation be (rng s) (length (data_X s));
          X1 = take_rows new_indices (data_X s)
      in case calculate_P X1 bs (perplexity e) of
           Inl err \<Rightarrow> Inl err
         | Inr A \<Rightarrow>
             (let A = exaggerate e (epoch s) A;
                  (nw1, loss, n_batches) = fit_batches be bs X1 A (net s)
              in if n_batches = 0 then Inl ZeroDivisionError
                 else Inr ((early_stopping e (np_div loss (Fin (real n_batches))) s)
                        \<lparr>epoch := epoch s + 1, net := nw1, rng := g1, data_X := X1,
                         sim_P := A\<rparr>)))"

function fit_loop ::
  "('net, 'rng) backend \<Rightarrow> 'net tsne \<Rightarrow> nat \<Rightarrow> ('net, 'rng) train_state \<Rightarrow>
   error + ('net, 'rng) train_state" where
  "fit_loop be e bs s =
     (if epoch s < n_iter e \<and> \<not> es_stop s then
        (case fit_epoch be e bs s of Inl err \<Rightarrow> Inl err | Inr s1 \<Rightarrow> fit_loop be e bs s1)
      else Inr s)"
  by pat_completeness auto

lemma epoch_fit_epoch: "fit_epoch be e bs s = Inr s1 \<Longrightarrow> epoch s1 = Suc (epoch s)"
  by (auto simp: fit_epoch_def Let_def case_prod_beta epoch_early_stopping
      split: sum.splits if_splits)

termination fit_loop
  by (relation "measure (\<lambda>(be, e, bs, s). n_iter e - epoch s)") (auto simp: epoch_fit_epoch)

declare fit_loop.simps [simp del]

text \<open>
  \<^verbatim>\<open>fit(X, y=None, batch_size=None)\<close>: the attribute \<^verbatim>\<open>_batch_size\<close> is set, the network
  is built, the loop runs.
\<close>

definition fit_init ::
  "('net, 'rng) backend \<Rightarrow> 'net tsne \<Rightarrow> matrix \<Rightarrow> 'rng \<Rightarrow> nat \<Rightarrow> ('net, 'rng) train_state" where
  "fit_init be e X g bs =
     \<lparr>es_loss = PInf, es_patience = early_stopping_epochs e, es_stop = False, epoch = 0,
      net = build be (n_feature X) [500, 500, 2000] (n_components e) (alpha e) bs,
      rng = g, data_X = X, sim_P = []\<rparr>"

definition fit ::
  "('net, 'rng) backend \<Rightarrow> 'net tsne \<Rightarrow> matrix \<Rightarrow> nat option \<Rightarrow> 'rng \<Rightarrow>
   error + 'net tsne \<times> 'rng" where
  "fit be e X batch_size' g =
     (let n_sample = length X;
          bs = (case batch_size' of None \<Rightarrow> n_sample | Some b \<Rightarrow> b);
          e1 = e\<lparr>fit_batch_size := Some bs\<rparr>
      in case fit_loop be e1 bs (fit_init be e1 X g bs) of
           Inl err \<Rightarrow> Inl err
         | Inr s \<Rightarrow> Inr (e1\<lparr>model := Some (net s)\<rparr>, rng s))"

definition fit_transform ::
  "('net, 'rng) backend \<Rightarrow> 'net tsne \<Rightarrow> matrix \<Rightarrow> nat option \<Rightarrow> 'rng \<Rightarrow>
   error + matrix \<times> 'net tsne \<times> 'rng" where
  "fit_transform be e X batch_size' g =
     (case fit be e X batch_size' g of
        Inl err \<Rightarrow> Inl err
      | Inr (e1, g1) \<Rightarrow>
          (case transform be e1 X of Inl err \<Rightarrow> Inl err | Inr Y \<Rightarrow> Inr (Y, e1, g1)))"

subsection \<open>Collaborators for the examples\<close>

text \<open>
  A stand-in for the collaborators, used where a statement is checked on a concrete
  input: the network is the number of training steps taken, every step reports the loss
  \<open>1\<close>, the embedding of every sample is \<open>(0, 0)\<close>, and the permutation is the identity.
\<close>

definition toy_backend :: "(nat, unit) backend" where
  "toy_backend =
     \<lparr>build = (\<lambda>n_input hidden n_output a bs. 0),
      train_on_batch = (\<lambda>nw Xb Pb. (Suc nw, Fin 1)),
      forward = (\<lambda>nw x. [Fin 0, Fin 0]),
      permutation = (\<lambda>g n. ([0..<n], g))\<rparr>"

subsection \<open>Early stopping on a sequence of losses\<close>







text \<open>Two states agree on the three early-stopping variables.\<close>

definition same_es :: "'s es_state_scheme \<Rightarrow> 't es_state_scheme \<Rightarrow> bool" where
  "same_es s t = (es_loss s = es_loss t \<and> es_patience s = es_patience t \<and> es_stop s = es_stop t)"

text \<open>\<open>k\<close> passes through the loop of \<^verbatim>\<open>parametric_tsne.py\<close>, the first exception ending them.\<close>

primrec fit_epochs ::
  "('net, 'rng) backend \<Rightarrow> 'net tsne \<Rightarrow> nat \<Rightarrow> nat \<Rightarrow> ('net, 'rng) train_state \<Rightarrow>
   error + ('net, 'rng) train_state" where
  "fit_epochs be e bs 0 s = Inr s"
| "fit_epochs be e bs (Suc k) s =
     (case fit_epochs be e bs k s of Inl err \<Rightarrow> Inl err | Inr s1 \<Rightarrow> fit_epoch be e bs s1)"

section \<open>The calibration loop: bracket, iteration count, NaN\<close>

lemma np_within_Fin: "np_within lo hi a \<Longrightarrow> \<exists>x. a = Fin x \<and> lo \<le> x \<and> x \<le> hi"
  by (cases a) auto

lemma bracket_in_init: "bracket_in 1 1 (job_init Di logU)"
  by (simp add: bracket_in_def job_init_def split: prod.splits)

lemma bracket_in_adjust:
  assumes "bracket_in lo hi s" and "0 < lo"
  shows "bracket_in (lo / 2) (2 * hi) (adjust_beta s)"
proof -
  obtain b where b: "beta s = Fin b" "lo \<le> b" "b \<le> hi"
    using assms np_within_Fin unfolding bracket_in_def by blast
  have lo: "beta_min s = NInf \<or> (\<exists>m. beta_min s = Fin m \<and> lo \<le> m \<and> m \<le> hi)"
    using assms np_within_Fin unfolding bracket_in_def by blast
  have hi: "beta_max s = PInf \<or> (\<exists>m. beta_max s = Fin m \<and> lo \<le> m \<and> m \<le> hi)"
    using assms np_within_Fin unfolding bracket_in_def by blast
  show ?thesis
    using b lo hi \<open>0 < lo\<close>
    by (auto simp: bracket_in_def adjust_beta_def np_isposinf_def np_isneginf_def)
qed

lemma bracket_in_msp_adjust:
  assumes "bracket_in lo hi s" and "0 < lo"
  shows "bracket_in (lo / 2) (2 * hi) (msp_adjust_beta s)"
proof -
  obtain b where b: "beta s = Fin b" "lo \<le> b" "b \<le> hi"
    using assms np_within_Fin unfolding bracket_in_def by blast
  have lo: "beta_min s = NInf \<or> (\<exists>m. beta_min s = Fin m \<and> lo \<le> m \<and> m \<le> hi)"
    using assms np_within_Fin unfolding bracket_in_def by blast
  have hi: "beta_max s = PInf \<or> (\<exists>m. beta_max s = Fin m \<and> lo \<le> m \<and> m \<le> hi)"
    using assms np_within_Fin unfolding bracket_in_def by blast
  show ?thesis
    using b lo hi \<open>0 < lo\<close>
    by (auto simp: bracket_in_def msp_adjust_beta_def np_isinf_def)
qed

lemma bracket_in_job_step:
  "bracket_in lo hi s \<Longrightarrow> 0 < lo \<Longrightarrow> bracket_in (lo / 2) (2 * hi) (job_step Di logU s)"
  using bracket_in_adjust [of lo hi s]
  by (auto simp: job_step_def job_body_def Let_def bracket_in_def split: prod.splits)

lemma bracket_in_msp_job_body:
  "bracket_in lo hi s \<Longrightarrow> 0 < lo \<Longrightarrow> bracket_in (lo / 2) (2 * hi) (msp_job_body Di logU s)"
  using bracket_in_msp_adjust [of lo hi s]
  by (auto simp: msp_job_body_def Let_def bracket_in_def split: prod.splits)

lemma bracket_in_job_iter:
  "bracket_in ((1/2) ^ k) (2 ^ k) ((job_step Di logU ^^ k) (job_init Di logU))"
proof (induction k)
  case 0
  show ?case using bracket_in_init by simp
next
  case (Suc k)
  have "bracket_in ((1/2) ^ k / 2) (2 * 2 ^ k)
          (job_step Di logU ((job_step Di logU ^^ k) (job_init Di logU)))"
    by (rule bracket_in_job_step [OF Suc.IH]) simp
  then show ?case by simp
qed

lemma bracket_in_msp_job_iter:
  "bracket_in ((1/2) ^ k) (2 ^ k) ((msp_job_body Di logU ^^ k) (job_init Di logU))"
proof (induction k)
  case 0
  show ?case using bracket_in_init by simp
next
  case (Suc k)
  have "bracket_in ((1/2) ^ k / 2) (2 * 2 ^ k)
          (msp_job_body Di logU ((msp_job_body Di logU ^^ k) (job_init Di logU)))"
    by (rule bracket_in_msp_job_body [OF Suc.IH]) simp
  then show ?case by simp
qed

text \<open>The loop returns the state reached by some number of passes through its body.\<close>

lemma job_loop_iter:
  "\<exists>k\<le>max_iteration - tries s.
     job_loop Di logU max_iteration tol s = (job_step Di logU ^^ k) s"
proof (induction Di logU max_iteration tol s rule: job_loop.induct)
  case (1 Di logU max_iteration tol s)
  show ?case
  proof (cases "job_continue max_iteration tol s")
    case False
    then have "job_loop Di logU max_iteration tol s = (job_step Di logU ^^ 0) s"
      by (simp add: job_loop.simps)
    then show ?thesis by blast
  next
    case True
    then have lt: "tries s < max_iteration" by (simp add: job_continue_def)
    show ?thesis
    proof (cases "snd (job_body Di logU s)")
      case True
      with \<open>job_continue max_iteration tol s\<close>
      have "job_loop Di logU max_iteration tol s = (job_step Di logU ^^ 1) s"
        by (simp add: job_loop.simps)
      moreover have "1 \<le> max_iteration - tries s" using lt by simp
      ultimately show ?thesis by blast
    next
      case False
      from "1.IH" [OF \<open>job_continue max_iteration tol s\<close> False]
      obtain k where k: "k \<le> max_iteration - tries (job_step Di logU s)"
        "job_loop Di logU max_iteration tol (job_step Di logU s) =
           (job_step Di logU ^^ k) (job_step Di logU s)"
        by blast
      have "job_loop Di logU max_iteration tol s = (job_step Di logU ^^ Suc k) s"
        using True False k(2) by (simp add: job_loop.simps [of _ _ _ _ s] funpow_swap1)
      moreover have "Suc k \<le> max_iteration - tries s"
        using k(1) lt tries_job_body [OF False] by simp
      ultimately show ?thesis by blast
    qed
  qed
qed

lemma msp_job_loop_iter:
  "\<exists>k\<le>max_iteration - tries s.
     msp_job_loop Di logU max_iteration tol s = (msp_job_body Di logU ^^ k) s"
proof (induction Di logU max_iteration tol s rule: msp_job_loop.induct)
  case (1 Di logU max_iteration tol s)
  show ?case
  proof (cases "job_continue max_iteration tol s")
    case False
    then have "msp_job_loop Di logU max_iteration tol s = (msp_job_body Di logU ^^ 0) s"
      by (simp add: msp_job_loop.simps)
    then show ?thesis by blast
  next
    case True
    then have lt: "tries s < max_iteration" by (simp add: job_continue_def)
    from "1.IH" [OF True]
    obtain k where k: "k \<le> max_iteration - tries (msp_job_body Di logU s)"
      "msp_job_loop Di logU max_iteration tol (msp_job_body Di logU s) =
         (msp_job_body Di logU ^^ k) (msp_job_body Di logU s)"
      by blast
    have "msp_job_loop Di logU max_iteration tol s = (msp_job_body Di logU ^^ Suc k) s"
      using True k(2) by (simp add: msp_job_loop.simps [of _ _ _ _ s] funpow_swap1)
    moreover have "Suc k \<le> max_iteration - tries s"
      using k(1) lt tries_msp_job_body [of Di logU s] by simp
    ultimately show ?thesis by blast
  qed
qed

lemma job_init_sel:
  "job_init Di logU =
     \<lparr>beta = Fin 1, beta_min = NInf, beta_max = PInf, H = fst (Hbeta Di (Fin 1)),
      thisP = snd (Hbeta Di (Fin 1)), Hdiff = np_sub (fst (Hbeta Di (Fin 1))) logU, tries = 0\<rparr>"
  by (simp add: job_init_def case_prod_beta)

lemma job_body_sel:
  "job_body Di logU s =
     (if list_ex np_isnan (snd (Hbeta Di (beta (adjust_beta s))))
      then ((adjust_beta s)\<lparr>H := fst (Hbeta Di (beta (adjust_beta s))), thisP := thisP s\<rparr>, True)
      else ((adjust_beta s)\<lparr>H := fst (Hbeta Di (beta (adjust_beta s))),
              thisP := snd (Hbeta Di (beta (adjust_beta s))),
              Hdiff := np_sub (fst (Hbeta Di (beta (adjust_beta s)))) logU,
              tries := tries (adjust_beta s) + 1\<rparr>, False))"
  by (simp add: job_body_def Let_def case_prod_beta)

lemma msp_job_body_sel:
  "msp_job_body Di logU s =
     (msp_adjust_beta s)\<lparr>H := fst (Hbeta Di (beta (msp_adjust_beta s))),
        thisP := snd (Hbeta Di (beta (msp_adjust_beta s))),
        Hdiff := np_sub (fst (Hbeta Di (beta (msp_adjust_beta s)))) logU,
        tries := tries (msp_adjust_beta s) + 1\<rparr>"
  by (simp add: msp_job_body_def Let_def case_prod_beta)

lemma np_within_pos: "np_within lo hi a \<Longrightarrow> 0 < lo \<Longrightarrow> np_gt a (Fin 0)"
  by (cases a) (auto simp: np_gt_def)

lemma np_within_mono:
  "np_within lo hi a \<Longrightarrow> lo' \<le> lo \<Longrightarrow> hi \<le> hi' \<Longrightarrow> np_within lo' hi' a"
  by (cases a) auto

lemma tries_job_step_le: "tries (job_step Di logU s) \<le> Suc (tries s)"
  by (simp add: job_step_def job_body_sel tries_adjust_beta)

lemma tries_job_iter: "tries ((job_step Di logU ^^ k) s) \<le> tries s + k"
proof (induction k)
  case 0
  show ?case by simp
next
  case (Suc k)
  have "tries ((job_step Di logU ^^ Suc k) s) \<le> Suc (tries ((job_step Di logU ^^ k) s))"
    using tries_job_step_le by simp
  with Suc show ?case by simp
qed

lemma tries_msp_job_iter: "tries ((msp_job_body Di logU ^^ k) s) = tries s + k"
  by (induction k) (simp_all add: tries_msp_job_body)

lemma tries_job_init: "tries (job_init Di logU) = 0"
  by (simp add: job_init_sel)

lemma length_Hbeta: "length (snd (Hbeta Di b)) = length Di"
  by (simp add: Hbeta_def Let_def)

lemma row_at_init: "row_at Di (job_init Di logU)"
  by (simp add: row_at_def job_init_sel)

lemma row_at_msp_job_body: "row_at Di (msp_job_body Di logU s)"
  by (simp add: row_at_def msp_job_body_sel msp_adjust_beta_def)

lemma row_at_msp_iter: "row_at Di ((msp_job_body Di logU ^^ k) (job_init Di logU))"
  by (cases k) (simp_all add: row_at_init row_at_msp_job_body)

lemma length_thisP_job_step:
  "length (thisP s) = length Di \<Longrightarrow> length (thisP (job_step Di logU s)) = length Di"
  by (simp add: job_step_def job_body_sel length_Hbeta adjust_beta_def)

lemma length_thisP_job_iter:
  "length (thisP ((job_step Di logU ^^ k) (job_init Di logU))) = length Di"
proof (induction k)
  case 0
  show ?case by (simp add: job_init_sel length_Hbeta)
next
  case (Suc k)
  then show ?case by (simp add: length_thisP_job_step)
qed

lemma nan_free_job_step:
  "nan_free (thisP s) \<Longrightarrow> nan_free (thisP (job_step Di logU s))"
  by (simp add: nan_free_def job_step_def job_body_sel adjust_beta_def)

lemma nan_free_job_iter:
  "nan_free (thisP s) \<Longrightarrow> nan_free (thisP ((job_step Di logU ^^ k) s))"
  by (induction k) (simp_all add: nan_free_job_step)

lemma thisP_job_init: "thisP (job_init Di logU) = snd (Hbeta Di (Fin 1))"
  by (simp add: job_init_sel)

lemma job_loop_break:
  "job_continue mx tol s \<Longrightarrow> list_ex np_isnan (snd (Hbeta Di (beta (adjust_beta s)))) \<Longrightarrow>
   job_loop Di logU mx tol s = job_step Di logU s \<and> thisP (job_step Di logU s) = thisP s"
  by (simp add: job_loop.simps [of _ _ _ _ s] job_step_def job_body_sel adjust_beta_def)

lemma Hbeta_underflow:
  "Hbeta [Fin 1000, Fin 1000] (Fin 1) = (NaN, [NaN, NaN])"
  by (simp add: Hbeta_def Let_def exp_underflow_def inf_of_sign_def)

lemma job_init_underflow:
  "job_init [Fin 1000, Fin 1000] logU =
     \<lparr>beta = Fin 1, beta_min = NInf, beta_max = PInf, H = NaN, thisP = [NaN, NaN],
      Hdiff = NaN, tries = 0\<rparr>"
  by (simp add: job_init_sel Hbeta_underflow np_sub_def)

lemma Hbeta_400:
  "Hbeta [Fin 400, Fin 400] (Fin 1) = (Fin (ln 2), [Fin (1/2), Fin (1/2)])"
  by (simp add: Hbeta_def Let_def exp_underflow_def ln_mult)

lemma Hbeta_400_2:
  "Hbeta [Fin 400, Fin 400] (Fin 2) = (NaN, [NaN, NaN])"
  by (simp add: Hbeta_def Let_def exp_underflow_def inf_of_sign_def)

lemma ln2_big: "1 / 100000 < ln (2::real)"
proof -
  have "exp (1 / 100000 :: real) \<le> 1 + 1 / 100000 + (1 / 100000)\<^sup>2"
    by (rule exp_bound) simp_all
  then have "exp (1 / 100000 :: real) < 2" by (simp add: power2_eq_square)
  then have "ln (exp (1 / 100000 :: real)) < ln 2"
    by (subst ln_less_cancel_iff) simp_all
  then show ?thesis by simp
qed

lemma half_pow_mono: "k \<le> n \<Longrightarrow> ((1/2)::real) ^ n \<le> (1/2) ^ k"
  by (rule power_decreasing) simp_all

lemma two_pow_mono: "k \<le> n \<Longrightarrow> (2::real) ^ k \<le> 2 ^ n"
  by (rule power_increasing) simp_all

lemma beta_job_iter_within:
  "np_within ((1/2) ^ k) (2 ^ k) (beta ((job_step Di logU ^^ k) (job_init Di logU)))"
  using bracket_in_job_iter [where k = k and Di = Di and logU = logU] by (simp add: bracket_in_def)

lemma beta_msp_job_iter_within:
  "np_within ((1/2) ^ k) (2 ^ k) (beta ((msp_job_body Di logU ^^ k) (job_init Di logU)))"
  using bracket_in_msp_job_iter [where k = k and Di = Di and logU = logU] by (simp add: bracket_in_def)

lemma beta_job_loop_within:
  "np_within ((1/2) ^ max_iteration) (2 ^ max_iteration)
     (beta (job_loop Di logU max_iteration tol (job_init Di logU)))"
proof -
  obtain k where k: "k \<le> max_iteration"
    "job_loop Di logU max_iteration tol (job_init Di logU) =
       (job_step Di logU ^^ k) (job_init Di logU)"
    using job_loop_iter [where max_iteration = max_iteration and s = "job_init Di logU" and Di = Di
        and logU = logU and tol = tol]
    by (auto simp: tries_job_init)
  show ?thesis
    unfolding k(2)
    by (rule np_within_mono [OF beta_job_iter_within half_pow_mono [OF k(1)] two_pow_mono [OF k(1)]])
qed

lemma beta_msp_job_loop_within:
  "np_within ((1/2) ^ max_iteration) (2 ^ max_iteration)
     (beta (msp_job_loop Di logU max_iteration tol (job_init Di logU)))"
proof -
  obtain k where k: "k \<le> max_iteration"
    "msp_job_loop Di logU max_iteration tol (job_init Di logU) =
       (msp_job_body Di logU ^^ k) (job_init Di logU)"
    using msp_job_loop_iter [where max_iteration = max_iteration and s = "job_init Di logU" and Di = Di
        and logU = logU and tol = tol]
    by (auto simp: tries_job_init)
  show ?thesis
    unfolding k(2)
    by (rule np_within_mono [OF beta_msp_job_iter_within half_pow_mono [OF k(1)] two_pow_mono [OF k(1)]])
qed

lemma thisP_job_iter_row:
  "\<exists>j\<le>k. thisP ((job_step Di logU ^^ k) (job_init Di logU)) =
     snd (Hbeta Di (beta ((job_step Di logU ^^ j) (job_init Di logU))))"
proof (induction k)
  case 0
  show ?case by (simp add: job_init_sel)
next
  case (Suc k)
  let ?s = "(job_step Di logU ^^ k) (job_init Di logU)"
  show ?case
  proof (cases "snd (job_body Di logU ?s)")
    case True
    then have "thisP ((job_step Di logU ^^ Suc k) (job_init Di logU)) = thisP ?s"
      by (simp add: job_step_def job_body_sel split: if_splits)
    with Suc obtain j where "j \<le> k"
      "thisP ((job_step Di logU ^^ Suc k) (job_init Di logU)) =
         snd (Hbeta Di (beta ((job_step Di logU ^^ j) (job_init Di logU))))"
      by auto
    then show ?thesis using le_Suc_eq by blast
  next
    case False
    then have "thisP ((job_step Di logU ^^ Suc k) (job_init Di logU)) =
      snd (Hbeta Di (beta ((job_step Di logU ^^ Suc k) (job_init Di logU))))"
      by (simp add: job_step_def job_body_sel split: if_splits)
    then show ?thesis by blast
  qed
qed

section \<open>Claims about the calibration loop\<close>

text \<open>
  C10: throughout every run of the calibration search, \<open>beta\<close> stays strictly positive.
  After \<open>k\<close> passes through the loop body, in either file, \<open>beta\<close> is a finite number
  between \<open>2^-k\<close> and \<open>2^k\<close>, hence greater than zero; so is the \<open>beta\<close> the loop ends
  with. The bracket ends are earlier values of \<open>beta\<close>, so bisection stays in that range.
\<close>

theorem beta_stays_positive:
  "np_gt (beta ((job_step Di logU ^^ k) (job_init Di logU))) (Fin 0) \<and>
   np_within ((1/2) ^ k) (2 ^ k) (beta ((job_step Di logU ^^ k) (job_init Di logU))) \<and>
   np_gt (beta (job_loop Di logU max_iteration tol (job_init Di logU))) (Fin 0) \<and>
   np_gt (beta ((msp_job_body Di logU ^^ k) (job_init Di logU))) (Fin 0) \<and>
   np_within ((1/2) ^ k) (2 ^ k) (beta ((msp_job_body Di logU ^^ k) (job_init Di logU))) \<and>
   np_gt (beta (msp_job_loop Di logU max_iteration tol (job_init Di logU))) (Fin 0)"
proof (intro conjI)
  show "np_gt (beta ((job_step Di logU ^^ k) (job_init Di logU))) (Fin 0)"
    by (rule np_within_pos [OF beta_job_iter_within]) simp
  show "np_gt (beta (job_loop Di logU max_iteration tol (job_init Di logU))) (Fin 0)"
    by (rule np_within_pos [OF beta_job_loop_within]) simp
  show "np_gt (beta ((msp_job_body Di logU ^^ k) (job_init Di logU))) (Fin 0)"
    by (rule np_within_pos [OF beta_msp_job_iter_within]) simp
  show "np_gt (beta (msp_job_loop Di logU max_iteration tol (job_init Di logU))) (Fin 0)"
    by (rule np_within_pos [OF beta_msp_job_loop_within]) simp
qed (rule beta_job_iter_within beta_msp_job_iter_within)+

theorem beta_stays_positive_witness:
  "np_gt (beta ((job_step [Fin 1] (Fin (ln 30)) ^^ 3) (job_init [Fin 1] (Fin (ln 30))))) (Fin 0) \<and>
   np_gt (beta (job_loop [Fin 1] (Fin (ln 30)) 50 (Fin (1 / 100000)) (job_init [Fin 1] (Fin (ln 30))))) (Fin 0) \<and>
   np_gt (beta ((msp_job_body [Fin 1] (Fin (ln 30)) ^^ 3) (job_init [Fin 1] (Fin (ln 30))))) (Fin 0) \<and>
   np_gt (beta (msp_job_loop [Fin 1] (Fin (ln 30)) 50 (Fin (1 / 100000)) (job_init [Fin 1] (Fin (ln 30))))) (Fin 0)"
  using beta_stays_positive [where Di = "[Fin 1]" and logU = "Fin (ln 30)" and k = 3
      and max_iteration = 50 and tol = "Fin (1 / 100000)"] by blast

text \<open>
  C4: the calibration search ends after at most \<open>max_iteration\<close> passes through its loop
  body, for every distance row and every \<open>logU\<close>, and then returns a row without raising:
  \<open>x2p_job\<close> is a total function, the state it ends in is reached by \<open>k \<le> max_iteration\<close>
  passes, its counter \<open>tries\<close> never exceeds \<open>max_iteration\<close>, and the row returned has the
  length of the distance row and is the row \<open>Hbeta\<close> computed at one of the values of
  \<open>beta\<close> tried (in the \<open>msp_tsne\<close> file, at the last one).
\<close>

theorem x2p_job_bounded:
  "(\<exists>k\<le>max_iteration. job_loop Di logU max_iteration tol (job_init Di logU) =
        (job_step Di logU ^^ k) (job_init Di logU)) \<and>
   (\<exists>k\<le>max_iteration. msp_job_loop Di logU max_iteration tol (job_init Di logU) =
        (msp_job_body Di logU ^^ k) (job_init Di logU)) \<and>
   tries (job_loop Di logU max_iteration tol (job_init Di logU)) \<le> max_iteration \<and>
   tries (msp_job_loop Di logU max_iteration tol (job_init Di logU)) \<le> max_iteration \<and>
   (\<exists>j\<le>max_iteration. x2p_job max_iteration tol (i, Di, logU) =
        (i, snd (Hbeta Di (beta ((job_step Di logU ^^ j) (job_init Di logU)))))) \<and>
   msp_x2p_job max_iteration tol (i, Di, logU) =
     (i, snd (Hbeta Di (beta (msp_job_loop Di logU max_iteration tol (job_init Di logU))))) \<and>
   length (snd (x2p_job max_iteration tol (i, Di, logU))) = length Di \<and>
   length (snd (msp_x2p_job max_iteration tol (i, Di, logU))) = length Di"
proof -
  obtain k where k: "k \<le> max_iteration"
    "job_loop Di logU max_iteration tol (job_init Di logU) =
       (job_step Di logU ^^ k) (job_init Di logU)"
    using job_loop_iter [where max_iteration = max_iteration and s = "job_init Di logU" and Di = Di
        and logU = logU and tol = tol]
    by (auto simp: tries_job_init)
  obtain m where m: "m \<le> max_iteration"
    "msp_job_loop Di logU max_iteration tol (job_init Di logU) =
       (msp_job_body Di logU ^^ m) (job_init Di logU)"
    using msp_job_loop_iter [where max_iteration = max_iteration and s = "job_init Di logU" and Di = Di
        and logU = logU and tol = tol]
    by (auto simp: tries_job_init)
  have t1: "tries (job_loop Di logU max_iteration tol (job_init Di logU)) \<le> max_iteration"
    using tries_job_iter [where Di = Di and logU = logU and k = k and s = "job_init Di logU"] k
    by (simp add: tries_job_init)
  have t2: "tries (msp_job_loop Di logU max_iteration tol (job_init Di logU)) \<le> max_iteration"
    using m by (simp add: tries_msp_job_iter tries_job_init)
  obtain j where j: "j \<le> k"
    "thisP ((job_step Di logU ^^ k) (job_init Di logU)) =
       snd (Hbeta Di (beta ((job_step Di logU ^^ j) (job_init Di logU))))"
    using thisP_job_iter_row by blast
  have r1: "\<exists>j\<le>max_iteration. x2p_job max_iteration tol (i, Di, logU) =
        (i, snd (Hbeta Di (beta ((job_step Di logU ^^ j) (job_init Di logU)))))"
  proof (intro exI conjI)
    show "j \<le> max_iteration" using j(1) k(1) by simp
    show "x2p_job max_iteration tol (i, Di, logU) =
        (i, snd (Hbeta Di (beta ((job_step Di logU ^^ j) (job_init Di logU)))))"
      by (simp add: x2p_job_def k(2) j(2))
  qed
  have r2: "msp_x2p_job max_iteration tol (i, Di, logU) =
     (i, snd (Hbeta Di (beta (msp_job_loop Di logU max_iteration tol (job_init Di logU)))))"
    using row_at_msp_iter [where Di = Di and k = m and logU = logU] by (simp add: msp_x2p_job_def m(2) row_at_def)
  have l1: "length (snd (x2p_job max_iteration tol (i, Di, logU))) = length Di"
    by (simp add: x2p_job_def k(2) length_thisP_job_iter)
  have l2: "length (snd (msp_x2p_job max_iteration tol (i, Di, logU))) = length Di"
    by (simp add: r2 length_Hbeta)
  from k m t1 t2 r1 r2 l1 l2 show ?thesis by blast
qed

theorem x2p_job_bounded_witness:
  "(\<exists>k\<le>50. job_loop [Fin 1] (Fin (ln 30)) 50 (Fin (1 / 100000)) (job_init [Fin 1] (Fin (ln 30))) =
        (job_step [Fin 1] (Fin (ln 30)) ^^ k) (job_init [Fin 1] (Fin (ln 30)))) \<and>
   (\<exists>k\<le>50. msp_job_loop [Fin 1] (Fin (ln 30)) 50 (Fin (1 / 100000)) (job_init [Fin 1] (Fin (ln 30))) =
        (msp_job_body [Fin 1] (Fin (ln 30)) ^^ k) (job_init [Fin 1] (Fin (ln 30)))) \<and>
   tries (job_loop [Fin 1] (Fin (ln 30)) 50 (Fin (1 / 100000)) (job_init [Fin 1] (Fin (ln 30)))) \<le> 50 \<and>
   tries (msp_job_loop [Fin 1] (Fin (ln 30)) 50 (Fin (1 / 100000)) (job_init [Fin 1] (Fin (ln 30)))) \<le> 50 \<and>
   length (snd (x2p_job 50 (Fin (1 / 100000)) (0, [Fin 1], Fin (ln 30)))) = length [Fin 1] \<and>
   length (snd (msp_x2p_job 50 (Fin (1 / 100000)) (0, [Fin 1], Fin (ln 30)))) = length [Fin 1]"
  using x2p_job_bounded [where max_iteration = 50 and Di = "[Fin 1]" and logU = "Fin (ln 30)"
      and tol = "Fin (1 / 100000)" and i = 0] by blast

text \<open>
  C1, as stated, fails: for the distance row \<open>[1000, 1000]\<close> every \<open>exp(-D * beta)\<close>
  underflows to zero at \<open>beta = 1\<close>, the sum is zero, nothing replaces it by an epsilon,
  and both files return the row \<open>[NaN, NaN]\<close> (the loop test is false for a NaN
  \<open>Hdiff\<close>, so the loop is not entered).
\<close>

theorem x2p_job_returns_nan:
  "x2p_job 50 (Fin (1 / 100000)) (0, [Fin 1000, Fin 1000], Fin (ln 30)) = (0, [NaN, NaN]) \<and>
   msp_x2p_job 50 (Fin (1 / 100000)) (0, [Fin 1000, Fin 1000], Fin (ln 30)) = (0, [NaN, NaN])"
  by (simp add: x2p_job_def msp_x2p_job_def job_init_underflow job_loop.simps msp_job_loop.simps
      job_continue_def np_gt_def)

text \<open>
  C1, amended: in \<^verbatim>\<open>parametric_tsne.py\<close>, a pass through the loop body whose new row
  holds a NaN sets \<open>thisP\<close> back to the row of the pass before and ends the loop; hence
  \<open>x2p_job\<close> returns a row without NaN whenever the row computed before the loop, at
  \<open>beta = 1\<close>, has none.
\<close>

theorem x2p_job_nan_revert:
  "(job_continue max_iteration tol s \<and> list_ex np_isnan (snd (Hbeta Di (beta (adjust_beta s))))
      \<longrightarrow> job_loop Di logU max_iteration tol s = job_step Di logU s
          \<and> thisP (job_step Di logU s) = thisP s) \<and>
   (\<not> list_ex np_isnan (snd (Hbeta Di (Fin 1)))
      \<longrightarrow> \<not> list_ex np_isnan (snd (x2p_job max_iteration tol (i, Di, logU))))"
proof (intro conjI impI)
  assume a: "job_continue max_iteration tol s \<and> list_ex np_isnan (snd (Hbeta Di (beta (adjust_beta s))))"
  then show "job_loop Di logU max_iteration tol s = job_step Di logU s"
    using job_loop_break by blast
  from a show "thisP (job_step Di logU s) = thisP s"
    using job_loop_break by blast
next
  assume "\<not> list_ex np_isnan (snd (Hbeta Di (Fin 1)))"
  then have "nan_free (thisP (job_init Di logU))"
    by (simp add: nan_free_def thisP_job_init)
  moreover obtain k where
    "job_loop Di logU max_iteration tol (job_init Di logU) = (job_step Di logU ^^ k) (job_init Di logU)"
    using job_loop_iter by blast
  ultimately have "nan_free (thisP (job_loop Di logU max_iteration tol (job_init Di logU)))"
    using nan_free_job_iter by simp
  then show "\<not> list_ex np_isnan (snd (x2p_job max_iteration tol (i, Di, logU)))"
    by (simp add: nan_free_def x2p_job_def)
qed

theorem x2p_job_nan_revert_witness:
  "job_continue 50 (Fin (1 / 100000)) (job_init [Fin 400, Fin 400] (Fin 0)) \<and>
   list_ex np_isnan (snd (Hbeta [Fin 400, Fin 400]
      (beta (adjust_beta (job_init [Fin 400, Fin 400] (Fin 0)))))) \<and>
   thisP (job_loop [Fin 400, Fin 400] (Fin 0) 50 (Fin (1 / 100000))
      (job_init [Fin 400, Fin 400] (Fin 0))) = [Fin (1/2), Fin (1/2)] \<and>
   \<not> list_ex np_isnan (snd (Hbeta [Fin 400, Fin 400] (Fin 1))) \<and>
   \<not> list_ex np_isnan (snd (x2p_job 50 (Fin (1 / 100000)) (0, [Fin 400, Fin 400], Fin 0)))"
proof -
  let ?s = "job_init [Fin 400, Fin 400] (Fin 0)"
  have s: "?s = \<lparr>beta = Fin 1, beta_min = NInf, beta_max = PInf, H = Fin (ln 2),
      thisP = [Fin (1/2), Fin (1/2)], Hdiff = Fin (ln 2), tries = 0\<rparr>"
    by (simp add: job_init_sel Hbeta_400 np_sub_def)
  have pos: "0 < ln (2::real)" by simp
  have c: "job_continue 50 (Fin (1 / 100000)) ?s"
    using ln2_big pos by (simp add: s job_continue_def np_gt_def)
  have b: "beta (adjust_beta ?s) = Fin 2"
    using pos by (simp add: s adjust_beta_def np_gt_def np_isposinf_def)
  have n: "list_ex np_isnan (snd (Hbeta [Fin 400, Fin 400] (beta (adjust_beta ?s))))"
    by (simp add: b Hbeta_400_2 np_isnan_def)
  have f: "\<not> list_ex np_isnan (snd (Hbeta [Fin 400, Fin 400] (Fin 1)))"
    by (simp add: Hbeta_400 np_isnan_def)
  from x2p_job_nan_revert [where max_iteration = 50 and tol = "Fin (1 / 100000)" and s = ?s
      and Di = "[Fin 400, Fin 400]" and logU = "Fin 0" and i = 0] c n f
  have "job_loop [Fin 400, Fin 400] (Fin 0) 50 (Fin (1 / 100000)) ?s = job_step [Fin 400, Fin 400] (Fin 0) ?s"
    and "thisP (job_step [Fin 400, Fin 400] (Fin 0) ?s) = thisP ?s"
    and "\<not> list_ex np_isnan (snd (x2p_job 50 (Fin (1 / 100000)) (0, [Fin 400, Fin 400], Fin 0)))"
    by blast+
  moreover have "thisP ?s = [Fin (1/2), Fin (1/2)]" by (simp add: s)
  ultimately show ?thesis using c n f by simp
qed

section \<open>Distances and the similarity matrix of a block\<close>

lemma np_sum_Fin: "np_sum (map Fin xs) = Fin (sum_list xs)"
  by (induction xs) simp_all

lemma map2_np_mul_Fin: "map2 np_mul (map Fin xs) (map Fin ys) = map Fin (map2 (*) xs ys)"
proof (induction xs arbitrary: ys)
  case Nil
  show ?case by simp
next
  case (Cons a xs)
  then show ?case by (cases ys) simp_all
qed

lemma sum_sq_Fin: "sum_sq (map Fin xs) = Fin (\<Sum>a\<leftarrow>xs. a * a)"
  by (simp add: sum_sq_def comp_def np_sum_Fin [symmetric])

lemma np_dot_Fin: "np_dot (map Fin xs) (map Fin ys) = Fin (sum_list (map2 (*) xs ys))"
  by (simp only: np_dot_def map2_np_mul_Fin np_sum_Fin)

lemma expand_square_list:
  "length xs = length ys \<Longrightarrow>
   (\<Sum>b\<leftarrow>ys. b * b) + ((\<Sum>a\<leftarrow>xs. a * a) - 2 * sum_list (map2 (*) xs ys)) =
   (\<Sum>(a, b)\<leftarrow>zip xs ys. (a - b)\<^sup>2 :: real)"
  by (induction xs ys rule: list_induct2) (simp_all add: power2_eq_square algebra_simps)

lemma sq_dists_entry:
  "i < length X \<Longrightarrow> j < length X \<Longrightarrow>
   sq_dists X ! i ! j =
     np_add (sum_sq (X ! j)) (np_sub (sum_sq (X ! i)) (np_mul (Fin 2) (np_dot (X ! i) (X ! j))))"
  by (simp add: sq_dists_def)

lemma sum_list_zip_nth:
  "length xs = d \<Longrightarrow> length ys = d \<Longrightarrow>
   (\<Sum>(a, b)\<leftarrow>zip xs ys. f a b) = (\<Sum>k<d. f (xs ! k) (ys ! k) :: real)"
proof -
  assume a: "length xs = d" "length ys = d"
  have "(\<Sum>(a, b)\<leftarrow>zip xs ys. f a b) = (\<Sum>k<length (zip xs ys). (case zip xs ys ! k of (a, b) \<Rightarrow> f a b))"
    by (simp add: sum_list_sum_nth atLeast0LessThan)
  also have "\<dots> = (\<Sum>k<d. f (xs ! k) (ys ! k))"
    using a by (intro sum.cong) auto
  finally show ?thesis .
qed



lemma length_sq_dists: "length (sq_dists X) = length X"
  by (simp add: sq_dists_def)



lemma length_x2p_rows: "length (x2p_rows job X perp) = length X"
  by (simp add: x2p_rows_def Let_def)






lemma nan_to_zero_nth:
  "i < length P \<Longrightarrow> j < length (P ! i) \<Longrightarrow>
   nan_to_zero P ! i ! j = (if np_isnan (P ! i ! j) then Fin 0 else P ! i ! j)"
  by (simp add: nan_to_zero_def)

lemma square_nan_to_zero: "square n P \<Longrightarrow> square n (nan_to_zero P)"
  by (simp add: square_def nan_to_zero_def)

lemma symmetrize_nth:
  assumes "square n P" and "i < n" and "j < n"
  shows "symmetrize P ! i ! j = np_add (P ! i ! j) (P ! j ! i)"
proof -
  have len: "length P = n" and row: "length (P ! i) = n"
    using assms by (simp_all add: square_def)
  have "symmetrize P ! i = map2 np_add (P ! i) (mat_T P ! i)"
    using assms(2) len by (simp add: symmetrize_def mat_T_def)
  moreover have "mat_T P ! i = map (\<lambda>r. r ! i) P"
    using assms(2) len by (simp add: mat_T_def)
  ultimately show ?thesis using assms(3) len row by simp
qed

lemma square_symmetrize: "square n P \<Longrightarrow> square n (symmetrize P)"
  by (simp add: square_def symmetrize_def mat_T_def)



lemma normalize_nth:
  "i < length P \<Longrightarrow> j < length (P ! i) \<Longrightarrow> normalize P ! i ! j = np_div (P ! i ! j) (mat_sum P)"
  by (simp add: normalize_def)

lemma floor_at_nth:
  "i < length P \<Longrightarrow> j < length (P ! i) \<Longrightarrow> floor_at eps P ! i ! j = np_maximum (P ! i ! j) eps"
  by (simp add: floor_at_def)

lemma square_normalize: "square n P \<Longrightarrow> square n (normalize P)"
  by (simp add: square_def normalize_def)

lemma P_batch_nth:
  assumes "square n P" and "i < n" and "j < n"
  shows "P_batch eps P ! i ! j =
    np_maximum (np_div (symmetrize (nan_to_zero P) ! i ! j) (mat_sum (symmetrize (nan_to_zero P)))) eps"
proof -
  have s: "square n (symmetrize (nan_to_zero P))"
    using assms(1) by (simp add: square_nan_to_zero square_symmetrize)
  then have n: "square n (normalize (symmetrize (nan_to_zero P)))"
    by (rule square_normalize)
  show ?thesis
    using s n assms(2,3) by (simp add: P_batch_def floor_at_nth normalize_nth square_def)
qed








text \<open>Whatever the sum is, a diagonal entry is the floor or NaN, never zero.\<close>

lemma np_div_zero: "np_div (Fin 0) t = Fin 0 \<or> np_div (Fin 0) t = NaN"
  by (cases t) (simp_all add: inf_of_sign_def)

lemma P_batch_diag_not_zero:
  assumes sq: "square n P" and diag: "\<And>i. i < n \<Longrightarrow> P ! i ! i = Fin 0"
    and eps: "0 < e" and i: "i < n"
  shows "\<not> np_eq (P_batch (Fin e) P ! i ! i) (Fin 0)"
proof -
  have s0: "square n (nan_to_zero P)" using sq by (rule square_nan_to_zero)
  have "nan_to_zero P ! i ! i = Fin 0"
    using sq i diag [OF i] by (simp add: nan_to_zero_nth square_def np_isnan_def)
  then have "symmetrize (nan_to_zero P) ! i ! i = Fin 0" by (simp add: symmetrize_nth [OF s0 i i])
  then have "P_batch (Fin e) P ! i ! i = np_maximum (np_div (Fin 0) (mat_sum (symmetrize (nan_to_zero P)))) (Fin e)"
    by (simp add: P_batch_nth [OF sq i i])
  then show ?thesis
    using np_div_zero [of "mat_sum (symmetrize (nan_to_zero P))"] eps
    by (auto simp: np_eq_def)
qed

lemma Hbeta_single: "0 < b \<Longrightarrow> b \<le> 1 \<Longrightarrow> Hbeta [Fin 1] (Fin b) = (Fin 0, [Fin 1])"
  by (simp add: Hbeta_def Let_def exp_underflow_def)

lemma single_row_init: "single_row_state (job_init [Fin 1] (Fin (ln 30)))"
  by (simp add: single_row_state_def job_init_sel Hbeta_single np_sub_def)

lemma ln30_pos: "0 < ln (30::real)"
  by simp

lemma single_row_step:
  assumes "single_row_state s"
  shows "single_row_state (job_step [Fin 1] (Fin (ln 30)) s)"
    and "single_row_state (msp_job_body [Fin 1] (Fin (ln 30)) s)"
proof -
  obtain b where b: "beta s = Fin b" "0 < b" "b \<le> 1"
    using assms np_within_Fin [of 0 1 "beta s"] by (auto simp: single_row_state_def)
  have h: "Hdiff s = Fin (- ln 30)" "beta_min s = NInf"
    using assms by (simp_all add: single_row_state_def)
  have a: "adjust_beta s = s\<lparr>beta_max := Fin b, beta := Fin (b / 2)\<rparr>"
    using ln30_pos by (simp add: adjust_beta_def h b np_gt_def np_isneginf_def)
  have m: "msp_adjust_beta s = s\<lparr>beta_max := Fin b, beta := Fin (b / 2)\<rparr>"
    using ln30_pos by (simp add: msp_adjust_beta_def h b np_gt_def np_isinf_def)
  have hb: "Hbeta [Fin 1] (Fin (b / 2)) = (Fin 0, [Fin 1])"
    using b by (intro Hbeta_single) simp_all
  show "single_row_state (job_step [Fin 1] (Fin (ln 30)) s)"
    using b h by (simp add: job_step_def job_body_sel a hb single_row_state_def np_isnan_def np_sub_def)
  show "single_row_state (msp_job_body [Fin 1] (Fin (ln 30)) s)"
    using b h by (simp add: msp_job_body_sel m hb single_row_state_def np_sub_def)
qed

lemma single_row_iter:
  "single_row_state ((job_step [Fin 1] (Fin (ln 30)) ^^ k) (job_init [Fin 1] (Fin (ln 30))))"
  "single_row_state ((msp_job_body [Fin 1] (Fin (ln 30)) ^^ k) (job_init [Fin 1] (Fin (ln 30))))"
  by (induction k) (simp_all add: single_row_init single_row_step)

lemma x2p_job_single: "x2p_job max_iteration tol (i, [Fin 1], Fin (ln 30)) = (i, [Fin 1])"
proof -
  obtain k where
    "job_loop [Fin 1] (Fin (ln 30)) max_iteration tol (job_init [Fin 1] (Fin (ln 30))) =
       (job_step [Fin 1] (Fin (ln 30)) ^^ k) (job_init [Fin 1] (Fin (ln 30)))"
    using job_loop_iter by blast
  then show ?thesis
    using single_row_iter(1) [of k] by (simp add: x2p_job_def single_row_state_def)
qed

lemma msp_x2p_job_single: "msp_x2p_job max_iteration tol (i, [Fin 1], Fin (ln 30)) = (i, [Fin 1])"
proof -
  obtain k where
    "msp_job_loop [Fin 1] (Fin (ln 30)) max_iteration tol (job_init [Fin 1] (Fin (ln 30))) =
       (msp_job_body [Fin 1] (Fin (ln 30)) ^^ k) (job_init [Fin 1] (Fin (ln 30)))"
    using msp_job_loop_iter by blast
  then show ?thesis
    using single_row_iter(2) [of k] by (simp add: msp_x2p_job_def single_row_state_def)
qed

text \<open>The block of the two points \<open>0\<close> and \<open>1\<close> on the line, at perplexity \<open>30\<close>.\<close>

lemma sq_dists_two: "sq_dists [[Fin 0], [Fin 1]] = [[Fin 0, Fin 1], [Fin 1, Fin 0]]"
  by (simp add: sq_dists_def sum_sq_def np_dot_def np_sub_def)

lemma upt_2: "[0..<2] = [0, Suc 0]"
  by (simp add: upt_rec)

lemma x2p_two:
  "x2p [[Fin 0], [Fin 1]] (Fin 30) = [[Fin 0, Fin 1], [Fin 1, Fin 0]]"
  "msp_x2p [[Fin 0], [Fin 1]] (Fin 30) = [[Fin 0, Fin 1], [Fin 1, Fin 0]]"
  by (simp_all add: x2p_def msp_x2p_def x2p_rows_def sq_dists_two upt_2 drop_diag_def
      fill_off_diag_def x2p_job_single msp_x2p_job_single)

lemma symmetrize_two:
  "symmetrize (nan_to_zero [[Fin 0, Fin 1], [Fin 1, Fin 0]]) = [[Fin 0, Fin 2], [Fin 2, Fin 0]]"
  by (simp add: symmetrize_def nan_to_zero_def mat_T_def np_isnan_def upt_2)

lemma P_batch_two:
  "0 < e \<Longrightarrow> e \<le> 1 / 2 \<Longrightarrow>
   P_batch (Fin e) [[Fin 0, Fin 1], [Fin 1, Fin 0]] = [[Fin e, Fin (1 / 2)], [Fin (1 / 2), Fin e]]"
  by (simp add: P_batch_def symmetrize_two normalize_def mat_sum_def floor_at_def)





section \<open>Claims about distances and the similarity matrix\<close>

text \<open>
  C8: the matrix \<open>D\<close> that \<open>x2p\<close> computes through
  \<open>D[i][j] = |x_i|^2 + |x_j|^2 - 2 x_i . x_j\<close> holds, over exact arithmetic, the squared
  Euclidean distances \<open>|x_i - x_j|^2\<close> of all pairs of rows of a block of finite numbers
  (\<open>d\<close> is the number of columns).
\<close>

theorem sq_dists_euclidean:
  assumes "\<forall>x\<in>set Xr. length x = d" and "i < length Xr" and "j < length Xr"
  shows "sq_dists (map (map Fin) Xr) ! i ! j = Fin (\<Sum>k<d. (Xr ! i ! k - Xr ! j ! k)\<^sup>2)"
proof -
  have li: "length (Xr ! i) = d" and lj: "length (Xr ! j) = d"
    using assms by simp_all
  have "sq_dists (map (map Fin) Xr) ! i ! j =
      Fin ((\<Sum>b\<leftarrow>Xr ! j. b * b) + ((\<Sum>a\<leftarrow>Xr ! i. a * a) - 2 * sum_list (map2 (*) (Xr ! i) (Xr ! j))))"
    using assms(2,3) by (simp add: sq_dists_entry sum_sq_Fin np_dot_Fin np_sub_def)
  also have "\<dots> = Fin (\<Sum>(a, b)\<leftarrow>zip (Xr ! i) (Xr ! j). (a - b)\<^sup>2)"
    using expand_square_list [of "Xr ! i" "Xr ! j"] li lj by simp
  also have "\<dots> = Fin (\<Sum>k<d. (Xr ! i ! k - Xr ! j ! k)\<^sup>2)"
    using sum_list_zip_nth [OF li lj, of "\<lambda>a b. (a - b)\<^sup>2"] by simp
  finally show ?thesis .
qed

theorem sq_dists_euclidean_witness:
  "sq_dists (map (map Fin) [[0, 0], [3, 4]]) ! 0 ! 1 = Fin 25"
proof -
  have r: "\<forall>x\<in>set [[0, 0], [3, 4 :: real]]. length x = 2" by simp
  have i: "0 < length [[0, 0], [3, 4 :: real]]" and j: "1 < length [[0, 0], [3, 4 :: real]]"
    by simp_all
  from sq_dists_euclidean [OF r i j] show ?thesis
    by (simp add: numeral_2_eq_2)
qed




section \<open>The estimator: fitting and transforming\<close>

lemma length_P_batch: "length (P_batch eps A) = length A"
  by (simp add: P_batch_def floor_at_def normalize_def symmetrize_def nan_to_zero_def mat_T_def)

lemma length_calculate_P_batch: "length (calculate_P_batch Xb perp) = length Xb"
  by (simp add: calculate_P_batch_def length_P_batch x2p_def length_x2p_rows)

lemma length_msp_calculate_P_batch: "length (msp_calculate_P_batch Xb perp) = length Xb"
  by (simp add: msp_calculate_P_batch_def length_P_batch msp_x2p_def length_x2p_rows)

lemma place_batches_full:
  "(\<And>Pb. Pb \<in> set Pbs \<Longrightarrow> length Pb = bs) \<Longrightarrow> place_batches bs Pbs = Inr (concat Pbs)"
  by (induction Pbs) (simp_all add: place_batch_def)

text \<open>When the batch size divides the number of rows, every slice is a full block.\<close>

lemma block_starts_dvd:
  assumes "0 < bs" and "bs dvd n"
  shows "block_starts n bs = map (\<lambda>k. k * bs) [0..<n div bs]"
proof -
  obtain q where q: "n = bs * q" using assms(2) by (auto simp: dvd_def)
  have "(bs * q + bs - 1) div bs = q"
    using assms(1) by (intro div_nat_eqI) simp_all
  then show ?thesis using assms(1) by (simp add: block_starts_def q)
qed

lemma length_slice_full:
  assumes "0 < bs" and "bs dvd length X" and "i \<in> set (block_starts (length X) bs)"
  shows "length (slice_rows i bs X) = bs"
proof -
  obtain q where q: "length X = bs * q" using assms(2) by (auto simp: dvd_def)
  have "i \<in> set (map (\<lambda>k. k * bs) [0..<length X div bs])"
    using assms(3) by (simp only: block_starts_dvd [OF assms(1,2)])
  then have "\<exists>k<length X div bs. i = k * bs" by auto
  then obtain k where "i = k * bs" "k < length X div bs" by blast
  then have k: "i = k * bs" "k < q" using q assms(1) by simp_all
  have "k * bs + bs \<le> bs * q"
  proof -
    have "Suc k \<le> q" using k(2) by simp
    then have "bs * Suc k \<le> bs * q" by (rule mult_le_mono2)
    then show ?thesis by (simp add: algebra_simps)
  qed
  then show ?thesis by (simp add: slice_rows_def k(1) q)
qed

lemma msp_calculate_P_full:
  assumes "0 < bs" and "bs dvd length X"
  shows "\<exists>A. msp_calculate_P X bs perp = Inr A"
proof -
  have "place_batches bs
          (map (\<lambda>i. msp_calculate_P_batch (slice_rows i bs X) perp) (block_starts (length X) bs)) =
        Inr (concat (map (\<lambda>i. msp_calculate_P_batch (slice_rows i bs X) perp)
                       (block_starts (length X) bs)))"
    by (rule place_batches_full)
       (auto simp: length_msp_calculate_P_batch length_slice_full [OF assms])
  then show ?thesis using assms(1) by (simp add: msp_calculate_P_def)
qed

lemma calculate_P_full:
  assumes "0 < bs" and "bs dvd length X"
  shows "\<exists>A. calculate_P X bs perp = Inr A"
proof -
  have "place_batches bs
          (map (\<lambda>i. calculate_P_batch (slice_rows i bs X) perp) (block_starts (length X) bs)) =
        Inr (concat (map (\<lambda>i. calculate_P_batch (slice_rows i bs X) perp)
                       (block_starts (length X) bs)))"
    by (rule place_batches_full)
       (auto simp: length_calculate_P_batch length_slice_full [OF assms])
  then show ?thesis using assms(1) by (simp add: calculate_P_def)
qed

text \<open>What \<open>msp_adjust\<close> returns.\<close>

lemma msp_adjust_clamp:
  "batch_size e = None \<or> (\<exists>b. batch_size e = Some b \<and> length X < b) \<Longrightarrow>
   msp_adjust e X = Inr (e\<lparr>batch_size := Some (length X)\<rparr>, X)"
  by (auto simp: msp_adjust_def)

lemma msp_adjust_truncate:
  "batch_size e = Some b \<Longrightarrow> 0 < b \<Longrightarrow> b \<le> length X \<Longrightarrow>
   msp_adjust e X = Inr (e, take (length X - length X mod b) X)"
  by (simp add: msp_adjust_def Let_def)

lemma msp_adjust_zero: "batch_size e = Some 0 \<Longrightarrow> msp_adjust e X = Inl ZeroDivisionError"
  by (simp add: msp_adjust_def)

lemma msp_adjust_ok:
  assumes "msp_adjust e X = Inr (e1, X1)"
  shows "\<exists>bs. batch_size e1 = Some bs \<and> bs dvd length X1 \<and> (X \<noteq> [] \<longrightarrow> 0 < bs \<and> X1 \<noteq> [])"
proof (cases "batch_size e = None \<or> (\<exists>b. batch_size e = Some b \<and> length X < b)")
  case True
  from msp_adjust_clamp [OF True] assms
  have "e1 = e\<lparr>batch_size := Some (length X)\<rparr>" and "X1 = X" by simp_all
  then show ?thesis by simp
next
  case False
  then obtain b where Some: "batch_size e = Some b" and le: "b \<le> length X"
    by (cases "batch_size e") (simp_all add: not_less)
  have "b \<noteq> 0" using assms msp_adjust_zero [of e X] Some by auto
  then have b: "0 < b" by simp
  have r: "e1 = e" "X1 = take (length X - length X mod b) X"
    using assms msp_adjust_truncate [OF Some b le] by simp_all
  have d: "b dvd length X - length X mod b" by (simp add: dvd_minus_mod)
  have l: "length X1 = length X - length X mod b" by (simp add: r(2))
  have "b \<le> length X - length X mod b"
  proof -
    have "0 < length X div b" using b le by (simp add: div_greater_zero_iff)
    then have "b * 1 \<le> b * (length X div b)" by (intro mult_le_mono2) simp
    then show ?thesis by (simp add: minus_mod_eq_mult_div)
  qed
  then have "X1 \<noteq> []" using l b by auto
  then show ?thesis using Some b d l r(1) by simp
qed

lemma msp_adjust_frame:
  assumes "msp_adjust e X = Inr (e1, X1)"
  shows "e1\<lparr>batch_size := batch_size e\<rparr> = e"
proof (cases "batch_size e = None \<or> (\<exists>b. batch_size e = Some b \<and> length X < b)")
  case True
  from msp_adjust_clamp [OF True] assms
  have "e1 = e\<lparr>batch_size := Some (length X)\<rparr>" by simp
  then show ?thesis by simp
next
  case False
  then obtain b where Some: "batch_size e = Some b" and le: "b \<le> length X"
    by (cases "batch_size e") (simp_all add: not_less)
  have "b \<noteq> 0" using assms msp_adjust_zero [of e X] Some by auto
  then have "e1 = e" using assms msp_adjust_truncate [OF Some _ le] by simp
  then show ?thesis by simp
qed

text \<open>What \<open>msp_train\<close> and \<open>msp_fit\<close> return.\<close>

lemma msp_train_ok:
  assumes "batch_size e = Some bs" and "0 < bs" and "bs dvd length X"
  shows "\<exists>e1 g1. msp_train be e X g = Inr (e1, g1)"
proof -
  obtain A where "msp_calculate_P X bs (perplexity e) = Inr A"
    using msp_calculate_P_full [OF assms(2,3)] by blast
  then show ?thesis by (simp add: msp_train_def assms(1) Let_def)
qed

lemma msp_train_frame:
  assumes "msp_train be e X g = Inr (e1, g1)"
  shows "\<exists>nw. e1 = e\<lparr>model := Some nw\<rparr>"
proof -
  obtain bs where bs: "batch_size e = Some bs"
    using assms by (cases "batch_size e") (simp_all add: msp_train_def)
  obtain A where A: "msp_calculate_P X bs (perplexity e) = Inr A"
    using assms bs by (cases "msp_calculate_P X bs (perplexity e)") (simp_all add: msp_train_def Let_def)
  from assms
  have "e1 = e\<lparr>model := Some (net (msp_fit_loop be e bs (msp_train_init be e X g bs A)))\<rparr>"
    by (simp add: msp_train_def bs A Let_def)
  then show ?thesis by (rule exI)
qed

lemma msp_fit_ok:
  assumes "X \<noteq> []" and "batch_size e \<noteq> Some 0"
  shows "\<exists>e1 g1. msp_fit be e X g = Inr (e1, g1)"
proof -
  have "\<exists>e1 X1. msp_adjust e X = Inr (e1, X1)"
  proof (cases "batch_size e = None \<or> (\<exists>b. batch_size e = Some b \<and> length X < b)")
    case True
    then show ?thesis using msp_adjust_clamp by blast
  next
    case False
    then obtain b where b: "batch_size e = Some b" "b \<le> length X"
      by (cases "batch_size e") (simp_all add: not_less)
    then have "0 < b" using assms(2) by simp
    then show ?thesis using msp_adjust_truncate [OF b(1) _ b(2)] by blast
  qed
  then obtain e1 X1 where a: "msp_adjust e X = Inr (e1, X1)" by blast
  obtain bs where bs: "batch_size e1 = Some bs" "bs dvd length X1" "0 < bs"
    using msp_adjust_ok [OF a] assms(1) by blast
  obtain e2 g2 where "msp_train be e1 X1 g = Inr (e2, g2)"
    using msp_train_ok [OF bs(1,3,2), where be = be and g = g] by blast
  then show ?thesis by (simp add: msp_fit_def a)
qed

lemma msp_fit_frame:
  assumes "msp_fit be e X g = Inr (e1, g1)"
  shows "\<exists>nw. model e1 = Some nw \<and> e1\<lparr>model := model e, batch_size := batch_size e\<rparr> = e"
proof -
  obtain e0 X0 where a: "msp_adjust e X = Inr (e0, X0)"
    using assms by (cases "msp_adjust e X") (auto simp: msp_fit_def)
  then have t: "msp_train be e0 X0 g = Inr (e1, g1)" using assms by (simp add: msp_fit_def)
  obtain nw where nw: "e1 = e0\<lparr>model := Some nw\<rparr>" using msp_train_frame [OF t] by blast
  have "e0\<lparr>batch_size := batch_size e\<rparr> = e" by (rule msp_adjust_frame [OF a])
  then have "(e0\<lparr>model := Some nw\<rparr>)\<lparr>model := model e, batch_size := batch_size e\<rparr> = e"
    by (metis msp_tsne.surjective msp_tsne.update_convs(1) estimator.update_convs(11)
        estimator.surjective)
  then show ?thesis using nw by simp
qed

lemma transform_fitted: "model e = Some nw \<Longrightarrow> transform be e X = Inr (map (forward be nw) X)"
  by (simp add: transform_def predict_def)

lemma transform_unfitted: "model e = None \<Longrightarrow> transform be e X = Inl NotFittedError"
  by (simp add: transform_def)

lemma msp_fit_transform_rows:
  assumes "msp_fit_transform be e X g = Inr (Y, e1, g1)"
  shows "length Y = length X"
proof -
  obtain e0 g0 where f: "msp_fit be e X g = Inr (e0, g0)"
    using assms by (cases "msp_fit be e X g") (auto simp: msp_fit_transform_def)
  obtain nw where "model e0 = Some nw" using msp_fit_frame [OF f] by blast
  then have "transform be e0 X = Inr (map (forward be nw) X)" by (rule transform_fitted)
  then show ?thesis using assms f by (auto simp: msp_fit_transform_def)
qed

lemma msp_fit_transform_ok:
  assumes "X \<noteq> []" and "batch_size e \<noteq> Some 0"
  shows "\<exists>Y e1 g1. msp_fit_transform be e X g = Inr (Y, e1, g1)"
proof -
  obtain e0 g0 where f: "msp_fit be e X g = Inr (e0, g0)"
    using msp_fit_ok [OF assms, where be = be and g = g] by blast
  obtain nw where "model e0 = Some nw" using msp_fit_frame [OF f] by blast
  then have "transform be e0 X = Inr (map (forward be nw) X)" by (rule transform_fitted)
  then show ?thesis by (simp add: msp_fit_transform_def f)
qed

text \<open>Fitting sees only the rows that survive the truncation.\<close>

lemma msp_fit_truncated:
  assumes "batch_size e = Some b" and "0 < b" and "b \<le> length X"
  shows "msp_fit be e X g = msp_fit be e (take (length X - length X mod b) X) g"
proof -
  let ?X1 = "take (length X - length X mod b) X"
  have l: "length ?X1 = length X - length X mod b" by simp
  have ge: "b \<le> length ?X1"
  proof -
    have "0 < length X div b" using assms(2,3) by (simp add: div_greater_zero_iff)
    then have "b * 1 \<le> b * (length X div b)" by (intro mult_le_mono2) simp
    then show ?thesis by (simp add: minus_mod_eq_mult_div)
  qed
  have "b dvd length ?X1" unfolding l by (simp add: dvd_minus_mod)
  then have m: "length ?X1 mod b = 0" by (simp add: mod_eq_0_iff_dvd)
  have a1: "msp_adjust e X = Inr (e, ?X1)" by (rule msp_adjust_truncate [OF assms])
  have "msp_adjust e ?X1 = Inr (e, take (length ?X1 - length ?X1 mod b) ?X1)"
    by (rule msp_adjust_truncate [OF assms(1,2) ge])
  also have "take (length ?X1 - length ?X1 mod b) ?X1 = ?X1" by (simp only: m) simp
  finally show ?thesis by (simp add: msp_fit_def a1)
qed

text \<open>One epoch of \<^verbatim>\<open>fit\<close> of \<^verbatim>\<open>parametric_tsne.py\<close> on the two points \<open>0\<close> and \<open>1\<close>.\<close>

lemma calculate_P_batch_two:
  "calculate_P_batch [[Fin 0], [Fin 1]] (Fin 30) =
     [[Fin (1 / 10 ^ 8), Fin (1 / 2)], [Fin (1 / 2), Fin (1 / 10 ^ 8)]]"
  "msp_calculate_P_batch [[Fin 0], [Fin 1]] (Fin 30) =
     [[Fin (1 / 10 ^ 12), Fin (1 / 2)], [Fin (1 / 2), Fin (1 / 10 ^ 12)]]"
  by (simp_all add: calculate_P_batch_def msp_calculate_P_batch_def x2p_two P_batch_two)

lemma block_starts_one: "0 < n \<Longrightarrow> block_starts n n = [0]"
proof -
  assume "0 < n"
  then have "(n + n - 1) div n = 1" by (intro div_nat_eqI) simp_all
  then show ?thesis by (simp add: block_starts_def)
qed

lemma block_starts_2: "block_starts (Suc (Suc 0)) 2 = [0]"
  using block_starts_one [of 2] by (simp add: numeral_2_eq_2)

lemma calculate_P_two:
  "calculate_P [[Fin 0], [Fin 1]] 2 (Fin 30) =
     Inr [[Fin (1 / 10 ^ 8), Fin (1 / 2)], [Fin (1 / 2), Fin (1 / 10 ^ 8)]]"
  by (simp add: calculate_P_def block_starts_2 slice_rows_def calculate_P_batch_two place_batch_def)

lemma fit_epoch_two:
  assumes "data_X s = [[Fin 0], [Fin 1]]" and "perplexity e = Fin 30"
  shows "\<exists>s1. fit_epoch toy_backend e 2 s = Inr s1 \<and> net s1 = Suc (net s)
           \<and> epoch s1 = Suc (epoch s) \<and> data_X s1 = data_X s"
proof -
  have p: "permutation toy_backend () (Suc (Suc 0)) = ([0, Suc 0], ())"
    using upt_2 by (simp add: toy_backend_def numeral_2_eq_2)
  have t: "take_rows [0, Suc 0] (data_X s) = [[Fin 0], [Fin 1]]"
    by (simp add: take_rows_def assms(1))
  have b: "block_starts (length (data_X s)) 2 = [0]"
    by (simp add: assms(1) block_starts_2)
  have tr: "train_on_batch toy_backend = (\<lambda>nw Xb Pb. (Suc nw, Fin 1))"
    by (simp add: toy_backend_def)
  show ?thesis
    using t b by (simp add: fit_epoch_def fit_batches_def p assms calculate_P_two batch_step_def tr
        epoch_early_stopping Let_def)
qed

section \<open>Early stopping\<close>










lemma same_es_trans: "same_es s t \<Longrightarrow> same_es t u \<Longrightarrow> same_es s u"
  by (simp add: same_es_def)











lemma fit_epoch_Inr:
  assumes "fit_epoch be e bs s = Inr s1"
  shows "\<exists>A loss nw1 g1.
     calculate_P (data_X s1) bs (perplexity e) = Inr A \<and>
     s1 = (early_stopping e loss s)\<lparr>epoch := epoch s + 1, net := nw1, rng := g1,
            data_X := data_X s1, sim_P := exaggerate e (epoch s) A\<rparr>"
proof -
  let ?X1 = "take_rows (fst (permutation be (rng s) (length (data_X s)))) (data_X s)"
  obtain A where A: "calculate_P ?X1 bs (perplexity e) = Inr A"
    using assms
    by (cases "calculate_P ?X1 bs (perplexity e)") (simp_all add: fit_epoch_def case_prod_beta Let_def)
  let ?B = "fit_batches be bs ?X1 (exaggerate e (epoch s) A) (net s)"
  have nz: "snd (snd ?B) \<noteq> 0"
    using assms by (simp add: fit_epoch_def case_prod_beta Let_def A split: if_splits)
  have s1: "s1 = (early_stopping e (np_div (fst (snd ?B)) (Fin (real (snd (snd ?B))))) s)
      \<lparr>epoch := epoch s + 1, net := fst ?B, rng := snd (permutation be (rng s) (length (data_X s))),
       data_X := ?X1, sim_P := exaggerate e (epoch s) A\<rparr>"
    using assms nz by (simp add: fit_epoch_def case_prod_beta Let_def A)
  have d: "data_X s1 = ?X1" by (subst s1) simp
  show ?thesis
    apply (rule exI [where x = A])
    apply (rule exI [where x = "np_div (fst (snd ?B)) (Fin (real (snd (snd ?B))))"])
    apply (rule exI [where x = "fst ?B"])
    apply (rule exI [where x = "snd (permutation be (rng s) (length (data_X s)))"])
    apply (simp only: d A)
    apply (rule conjI [OF refl])
    apply (rule s1)
    done
qed





section \<open>Early exaggeration\<close>

lemma msp_epoch_keeps: "sim_P (msp_epoch be e bs s) = sim_P s \<and> data_X (msp_epoch be e bs s) = data_X s"
  by (simp add: msp_epoch_def case_prod_beta early_stopping_def Let_def)

lemma msp_iter_keeps:
  "sim_P ((msp_epoch be e bs ^^ k) s) = sim_P s \<and>
   data_X ((msp_epoch be e bs ^^ k) s) = data_X s \<and>
   epoch ((msp_epoch be e bs ^^ k) s) = epoch s + k"
  by (induction k) (simp_all add: msp_epoch_keeps epoch_msp_epoch)

lemma msp_train_init_sel:
  "sim_P (msp_train_init be e X g bs A) = A"
  "data_X (msp_train_init be e X g bs A) = X"
  "epoch (msp_train_init be e X g bs A) = 0"
  by (simp_all add: msp_train_init_def)

lemma msp_epoch_P_iter:
  "msp_epoch_P e ((msp_epoch be e bs ^^ k) (msp_train_init be e X g bs A)) = exaggerate e k A"
  by (simp add: msp_epoch_P_def msp_iter_keeps msp_train_init_sel)

lemma epoch_fit_epochs: "fit_epochs be e bs k s = Inr s1 \<Longrightarrow> epoch s1 = epoch s + k"
proof (induction k arbitrary: s1)
  case 0
  then show ?case by simp
next
  case (Suc k)
  from Suc.prems obtain s0 where s0: "fit_epochs be e bs k s = Inr s0" "fit_epoch be e bs s0 = Inr s1"
    by (cases "fit_epochs be e bs k s") simp_all
  from Suc.IH [OF s0(1)] epoch_fit_epoch [OF s0(2)] show ?case by simp
qed

lemma fit_epoch_sim_P:
  assumes "fit_epoch be e bs s = Inr s1"
  shows "\<exists>B. calculate_P (data_X s1) bs (perplexity e) = Inr B \<and> sim_P s1 = exaggerate e (epoch s) B"
proof -
  obtain B loss nw1 g1 where B: "calculate_P (data_X s1) bs (perplexity e) = Inr B"
    and eq: "s1 = (early_stopping e loss s)\<lparr>epoch := epoch s + 1, net := nw1, rng := g1,
            data_X := data_X s1, sim_P := exaggerate e (epoch s) B\<rparr>"
    using fit_epoch_Inr [OF assms] by blast
  have "sim_P s1 = exaggerate e (epoch s) B" by (subst eq) simp
  with B show ?thesis by blast
qed

lemma early_stopping_sim_P [simp]:
  "early_stopping e loss (s\<lparr>sim_P := Q\<rparr>) = (early_stopping e loss s)\<lparr>sim_P := Q\<rparr>"
  by (simp add: early_stopping_def Let_def)

lemma fit_epoch_ignores_sim_P: "fit_epoch be e bs (s\<lparr>sim_P := Q\<rparr>) = fit_epoch be e bs s"
  by (simp add: fit_epoch_def Let_def case_prod_beta split: sum.splits)

lemma fit_init_sel:
  "epoch (fit_init be e X g bs) = 0"
  "data_X (fit_init be e X g bs) = X"
  "net (fit_init be e X g bs) = build be (n_feature X) [500, 500, 2000] (n_components e) (alpha e) bs"
  by (simp_all add: fit_init_def)

section \<open>Examples with the stand-in collaborators\<close>




lemma perplexity_default:
  "perplexity (default_tsne :: 'n tsne) = Fin 30"
  "perplexity (msp_default_tsne :: 'n msp_tsne) = Fin 30"
  by (simp_all add: default_tsne_def msp_default_tsne_def ParametricTSNE_def msp_ParametricTSNE_def)

lemma batch_size_default: "batch_size (msp_default_tsne :: 'n msp_tsne) = Some 500"
  by (simp add: msp_default_tsne_def msp_ParametricTSNE_def)

lemma forward_toy: "forward toy_backend nw x = [Fin 0, Fin 0]"
  by (simp add: toy_backend_def)

text \<open>What a \<^verbatim>\<open>fit\<close> of the \<open>msp_tsne\<close> file that returned has done to the batch size.\<close>

lemma msp_train_empty: "batch_size e = Some 0 \<Longrightarrow> msp_train be e X g = Inl ZeroDivisionError"
  by (simp add: msp_train_def msp_calculate_P_def)

lemma msp_fit_clamped:
  assumes "msp_fit be e X g = Inr (e', g')"
    and "batch_size e = None \<or> (\<exists>b. batch_size e = Some b \<and> length X < b)"
  shows "msp_fit be e X g = msp_train be (e\<lparr>batch_size := Some (length X)\<rparr>) X g"
    and "batch_size e' = Some (length X)"
    and "0 < length X"
    and "\<exists>A. msp_calculate_P X (length X) (perplexity e) = Inr A \<and>
           model e' = Some (net (msp_fit_loop be (e\<lparr>batch_size := Some (length X)\<rparr>) (length X)
             (msp_train_init be (e\<lparr>batch_size := Some (length X)\<rparr>) X g (length X) A)))"
proof -
  let ?e = "e\<lparr>batch_size := Some (length X)\<rparr>"
  have a: "msp_adjust e X = Inr (?e, X)" by (rule msp_adjust_clamp [OF assms(2)])
  show f: "msp_fit be e X g = msp_train be ?e X g" by (simp add: msp_fit_def a)
  then have t: "msp_train be ?e X g = Inr (e', g')" using assms(1) by simp
  obtain nw where nw: "e' = ?e\<lparr>model := Some nw\<rparr>" using msp_train_frame [OF t] by (elim exE)
  show "batch_size e' = Some (length X)" by (subst nw) simp
  show "0 < length X"
  proof (rule ccontr)
    assume "\<not> 0 < length X"
    then have "batch_size ?e = Some 0" by simp
    then have "msp_train be ?e X g = Inl ZeroDivisionError" by (rule msp_train_empty)
    with t show False by simp
  qed
  obtain A where A: "msp_calculate_P X (length X) (perplexity e) = Inr A"
    using t by (cases "msp_calculate_P X (length X) (perplexity e)") (simp_all add: msp_train_def)
  have "model e' = Some (net (msp_fit_loop be ?e (length X) (msp_train_init be ?e X g (length X) A)))"
    using t by (simp add: msp_train_def A Let_def) (metis estimator.select_convs(11) estimator.surjective
        estimator.update_convs(11))
  with A show "\<exists>A. msp_calculate_P X (length X) (perplexity e) = Inr A \<and>
           model e' = Some (net (msp_fit_loop be ?e (length X) (msp_train_init be ?e X g (length X) A)))"
    by (intro exI conjI)
qed

lemma msp_fit_kept:
  assumes "msp_fit be e X g = Inr (e', g')" and "batch_size e = Some b" and "b \<le> length X"
  shows "batch_size e' = batch_size e"
proof -
  have "b \<noteq> 0"
  proof
    assume "b = 0"
    then have "msp_adjust e X = Inl ZeroDivisionError" using assms(2) by (simp add: msp_adjust_zero)
    then show False using assms(1) by (simp add: msp_fit_def)
  qed
  then have a: "msp_adjust e X = Inr (e, take (length X - length X mod b) X)"
    using msp_adjust_truncate [OF assms(2) _ assms(3)] by simp
  then have t: "msp_train be e (take (length X - length X mod b) X) g = Inr (e', g')"
    using assms(1) by (simp add: msp_fit_def)
  obtain nw where nw: "e' = e\<lparr>model := Some nw\<rparr>" using msp_train_frame [OF t] by (elim exE)
  show ?thesis by (subst nw) simp
qed





section \<open>Claims about the estimator\<close>



text \<open>
  C3, as stated, fails: \<^verbatim>\<open>fit\<close> drops the last three samples for training only
  (\<^verbatim>\<open>X = X[:-m]\<close> rebinds its own parameter); \<^verbatim>\<open>fit_transform\<close> then calls
  \<^verbatim>\<open>transform\<close> on the \<open>X\<close> it was given, so for 503 samples and batch size 100 the
  embedding has 503 rows, not 500.
\<close>

theorem msp_fit_transform_503_rows:
  "length (replicate 503 [Fin 0]) = 503 \<and>
   (\<exists>e' g'. msp_fit_transform toy_backend (msp_default_tsne\<lparr>batch_size := Some 100\<rparr>)
        (replicate 503 [Fin 0]) () = Inr (replicate 503 [Fin 0, Fin 0], e', g')) \<and>
   \<not> (\<exists>Y e' g'. msp_fit_transform toy_backend (msp_default_tsne\<lparr>batch_size := Some 100\<rparr>)
        (replicate 503 [Fin 0]) () = Inr (Y, e', g') \<and> length Y = 500)"
proof -
  let ?e = "(msp_default_tsne :: nat msp_tsne)\<lparr>batch_size := Some 100\<rparr>"
  let ?X = "replicate 503 [Fin 0]"
  have ne: "?X \<noteq> []" by simp
  have nz: "batch_size ?e \<noteq> Some 0" by simp
  obtain e0 g0 where f: "msp_fit toy_backend ?e ?X () = Inr (e0, g0)"
    using msp_fit_ok [OF ne nz, where be = toy_backend and g = "()"] by (elim exE)
  obtain nw where nw: "model e0 = Some nw" using msp_fit_frame [OF f] by (elim exE conjE)
  have t: "transform toy_backend e0 ?X = Inr (replicate 503 [Fin 0, Fin 0])"
    by (simp add: transform_fitted [OF nw] forward_toy)
  have ft: "msp_fit_transform toy_backend ?e ?X () = Inr (replicate 503 [Fin 0, Fin 0], e0, g0)"
    by (simp add: msp_fit_transform_def f t)
  have no: "\<not> (\<exists>Y e' g'. msp_fit_transform toy_backend ?e ?X () = Inr (Y, e', g') \<and> length Y = 500)"
    by (simp add: ft)
  show ?thesis
    apply (intro conjI)
      apply simp
     apply (rule exI [where x = e0], rule exI [where x = g0], rule ft)
    apply (rule no)
    done
qed

text \<open>
  C3, amended: with a batch size \<open>b\<close> that is positive and at most the sample count,
  \<^verbatim>\<open>fit\<close> trains on the first \<open>n - n mod b\<close> samples only (fitting \<open>X\<close> and fitting the
  truncated \<open>X\<close> are the same computation), and \<^verbatim>\<open>fit_transform\<close> returns an embedding
  with one row for every sample of \<open>X\<close>: for 503 samples and batch size 100, training uses
  500 samples and the embedding has 503 rows.
\<close>

theorem msp_fit_transform_rows_kept:
  assumes "batch_size e = Some b" and "0 < b" and "b \<le> length X"
  shows "msp_fit be e X g = msp_fit be e (take (length X - length X mod b) X) g \<and>
         (\<exists>Y e' g'. msp_fit_transform be e X g = Inr (Y, e', g') \<and> length Y = length X)"
proof -
  have ne: "X \<noteq> []" using assms(2,3) by auto
  have nz: "batch_size e \<noteq> Some 0" using assms(1,2) by simp
  obtain Y e' g' where ft: "msp_fit_transform be e X g = Inr (Y, e', g')"
    using msp_fit_transform_ok [OF ne nz, where be = be and g = g] by (elim exE)
  have "length Y = length X" by (rule msp_fit_transform_rows [OF ft])
  with ft have "\<exists>Y e' g'. msp_fit_transform be e X g = Inr (Y, e', g') \<and> length Y = length X"
    by (intro exI conjI)
  then show ?thesis using msp_fit_truncated [OF assms] by (intro conjI)
qed

theorem msp_fit_transform_rows_kept_witness:
  "msp_fit toy_backend (msp_default_tsne\<lparr>batch_size := Some 100\<rparr>) (replicate 503 [Fin 0]) () =
     msp_fit toy_backend (msp_default_tsne\<lparr>batch_size := Some 100\<rparr>) (replicate 500 [Fin 0]) () \<and>
   (\<exists>Y e' g'. msp_fit_transform toy_backend (msp_default_tsne\<lparr>batch_size := Some 100\<rparr>)
        (replicate 503 [Fin 0]) () = Inr (Y, e', g') \<and> length Y = 503)"
proof -
  let ?e = "(msp_default_tsne :: nat msp_tsne)\<lparr>batch_size := Some 100\<rparr>"
  have b: "batch_size ?e = Some 100" by simp
  have p: "(0::nat) < 100" by simp
  have l: "100 \<le> length (replicate 503 [Fin 0])" by simp
  have tr: "take (503 - 503 mod 100) (replicate 503 [Fin 0]) = replicate 500 [Fin 0]"
    by simp
  from msp_fit_transform_rows_kept [OF b p l, where be = toy_backend and g = "()"]
  show ?thesis by (simp only: length_replicate tr)
qed

text \<open>
  C9: in the \<open>msp_tsne\<close> file a \<^verbatim>\<open>fit\<close> that returns leaves every attribute of the
  estimator as it was, but for \<open>batch_size\<close> and the network. When \<open>batch_size\<close> is
  \<open>None\<close> or greater than the sample count, the attribute is overwritten with the sample
  count before anything else reads it: the rest of \<^verbatim>\<open>fit\<close> (the network and its loss,
  built with this batch size, and the matrix \<open>P\<close>) runs on the overwritten estimator, the
  estimator returned carries the sample count as its batch size, and a later \<^verbatim>\<open>fit\<close> on
  at least as many samples finds that value and truncates its data to a multiple of it.
  A batch size that is at most the sample count is left as it is.
\<close>

theorem msp_fit_batch_size:
  assumes "msp_fit be e X g = Inr (e', g')"
  shows
    "e'\<lparr>model := model e, batch_size := batch_size e\<rparr> = e \<and>
     (batch_size e = None \<or> (\<exists>b. batch_size e = Some b \<and> length X < b) \<longrightarrow>
        batch_size e' = Some (length X) \<and>
        msp_fit be e X g = msp_train be (e\<lparr>batch_size := Some (length X)\<rparr>) X g \<and>
        (\<exists>A. msp_calculate_P X (length X) (perplexity e) = Inr A \<and>
           model e' = Some (net (msp_fit_loop be (e\<lparr>batch_size := Some (length X)\<rparr>) (length X)
             (msp_train_init be (e\<lparr>batch_size := Some (length X)\<rparr>) X g (length X) A)))) \<and>
        (length X \<le> length X2 \<longrightarrow>
           msp_adjust e' X2 = Inr (e', take (length X2 - length X2 mod length X) X2))) \<and>
     ((\<exists>b. batch_size e = Some b \<and> b \<le> length X) \<longrightarrow> batch_size e' = batch_size e)"
proof (intro conjI impI)
  show "e'\<lparr>model := model e, batch_size := batch_size e\<rparr> = e"
    using msp_fit_frame [OF assms] by (elim exE conjE)
next
  assume c: "batch_size e = None \<or> (\<exists>b. batch_size e = Some b \<and> length X < b)"
  show "batch_size e' = Some (length X)" by (rule msp_fit_clamped(2) [OF assms c])
  show "msp_fit be e X g = msp_train be (e\<lparr>batch_size := Some (length X)\<rparr>) X g"
    by (rule msp_fit_clamped(1) [OF assms c])
  show "\<exists>A. msp_calculate_P X (length X) (perplexity e) = Inr A \<and>
           model e' = Some (net (msp_fit_loop be (e\<lparr>batch_size := Some (length X)\<rparr>) (length X)
             (msp_train_init be (e\<lparr>batch_size := Some (length X)\<rparr>) X g (length X) A)))"
    by (rule msp_fit_clamped(4) [OF assms c])
next
  assume c: "batch_size e = None \<or> (\<exists>b. batch_size e = Some b \<and> length X < b)"
    and l: "length X \<le> length X2"
  show "msp_adjust e' X2 = Inr (e', take (length X2 - length X2 mod length X) X2)"
    by (rule msp_adjust_truncate [OF msp_fit_clamped(2) [OF assms c] msp_fit_clamped(3) [OF assms c] l])
next
  assume "\<exists>b. batch_size e = Some b \<and> b \<le> length X"
  then obtain b where "batch_size e = Some b" "b \<le> length X" by (elim exE conjE)
  then show "batch_size e' = batch_size e" by (rule msp_fit_kept [OF assms])
qed

theorem msp_fit_batch_size_witness:
  "\<exists>e' g'. msp_fit toy_backend msp_default_tsne [[Fin 0], [Fin 1]] () = Inr (e', g') \<and>
     batch_size msp_default_tsne = Some 500 \<and> batch_size e' = Some 2 \<and>
     e'\<lparr>model := model msp_default_tsne, batch_size := Some 500\<rparr> = msp_default_tsne \<and>
     msp_adjust e' (replicate 5 [Fin 0]) = Inr (e', replicate 4 [Fin 0])"
proof -
  let ?e = "msp_default_tsne :: nat msp_tsne"
  let ?X = "[[Fin 0], [Fin 1]]"
  have ne: "?X \<noteq> []" by simp
  have nz: "batch_size ?e \<noteq> Some 0" by (simp add: batch_size_default)
  obtain e' g' where f: "msp_fit toy_backend ?e ?X () = Inr (e', g')"
    using msp_fit_ok [OF ne nz, where be = toy_backend and g = "()"] by (elim exE)
  have c: "batch_size ?e = None \<or> (\<exists>b. batch_size ?e = Some b \<and> length ?X < b)"
    by (simp add: batch_size_default)
  have l: "length ?X \<le> length (replicate 5 [Fin 0])" by simp
  note t = msp_fit_batch_size [OF f, where ?X2.0 = "replicate 5 [Fin 0]"]
  have fr: "e'\<lparr>model := model ?e, batch_size := Some 500\<rparr> = ?e"
    using t [THEN conjunct1] by (simp only: batch_size_default)
  note u = t [THEN conjunct2, THEN conjunct1, THEN mp, OF c]
  have b2: "batch_size e' = Some 2" using u [THEN conjunct1] by simp
  have "msp_adjust e' (replicate 5 [Fin 0]) =
      Inr (e', take (length (replicate 5 [Fin 0]) - length (replicate 5 [Fin 0]) mod length ?X)
        (replicate 5 [Fin 0]))"
    by (rule u [THEN conjunct2, THEN conjunct2, THEN conjunct2, THEN mp, OF l])
  moreover have "(5::nat) - 5 mod Suc (Suc 0) = 4" by (simp flip: numeral_2_eq_2)
  ultimately have ad: "msp_adjust e' (replicate 5 [Fin 0]) = Inr (e', replicate 4 [Fin 0])"
    by simp
  show ?thesis
    apply (rule exI [where x = e'], rule exI [where x = g'])
    apply (intro conjI)
        apply (rule f)
       apply (rule batch_size_default)
      apply (rule b2)
     apply (rule fr)
    apply (rule ad)
    done
qed



text \<open>
  C6: in the \<open>msp_tsne\<close> file the matrix \<open>P\<close> computed before the loop is never assigned
  in the loop, and the matrix the batches of epoch \<open>k\<close> are cut from is a copy of it,
  multiplied once by \<open>early_exaggeration_value\<close> when \<open>k < early_exaggeration_epochs\<close> and
  left as it is otherwise. In \<^verbatim>\<open>parametric_tsne.py\<close> the matrix of epoch \<open>k\<close> is the one
  \<^verbatim>\<open>calculate_P\<close> returns for the data as shuffled in that epoch, multiplied once under
  the same test; the matrix of the epoch before is not read. In neither file does the
  factor accumulate over the epochs.
\<close>

theorem early_exaggeration_once:
  "msp_epoch_P e ((msp_epoch be e bs ^^ k) (msp_train_init be e X g bs A)) =
     (if k < early_exaggeration_epochs e then mat_scale (early_exaggeration_value e) A else A) \<and>
   sim_P ((msp_epoch be e bs ^^ k) (msp_train_init be e X g bs A)) = A \<and>
   msp_batches be e bs ((msp_epoch be e bs ^^ k) (msp_train_init be e X g bs A)) =
     foldl (\<lambda>acc i. msp_batch_step be bs X
                (if k < early_exaggeration_epochs e then mat_scale (early_exaggeration_value e) A
                 else A) i acc)
       (net ((msp_epoch be e bs ^^ k) (msp_train_init be e X g bs A)),
        rng ((msp_epoch be e bs ^^ k) (msp_train_init be e X g bs A)), Fin 0, 0)
       (block_starts (length X) bs) \<and>
   (fit_epochs be r bs k (fit_init be r X g bs) = Inr t \<and> fit_epoch be r bs t = Inr t' \<longrightarrow>
      (\<exists>B. calculate_P (data_X t') bs (perplexity r) = Inr B \<and>
         sim_P t' =
           (if k < early_exaggeration_epochs r then mat_scale (early_exaggeration_value r) B
            else B))) \<and>
   fit_epoch be r bs (t\<lparr>sim_P := Q\<rparr>) = fit_epoch be r bs t"
proof (intro conjI impI)
  let ?s = "(msp_epoch be e bs ^^ k) (msp_train_init be e X g bs A)"
  show p: "msp_epoch_P e ?s =
     (if k < early_exaggeration_epochs e then mat_scale (early_exaggeration_value e) A else A)"
    by (simp only: msp_epoch_P_iter exaggerate_def)
  show "sim_P ?s = A" by (simp add: msp_iter_keeps msp_train_init_sel)
  have d: "data_X ?s = X" by (simp add: msp_iter_keeps msp_train_init_sel)
  show "msp_batches be e bs ?s =
     foldl (\<lambda>acc i. msp_batch_step be bs X
                (if k < early_exaggeration_epochs e then mat_scale (early_exaggeration_value e) A
                 else A) i acc)
       (net ?s, rng ?s, Fin 0, 0) (block_starts (length X) bs)"
    by (simp only: msp_batches_def p d)
  show "fit_epoch be r bs (t\<lparr>sim_P := Q\<rparr>) = fit_epoch be r bs t"
    by (rule fit_epoch_ignores_sim_P)
next
  assume "fit_epochs be r bs k (fit_init be r X g bs) = Inr t \<and> fit_epoch be r bs t = Inr t'"
  then have a: "fit_epochs be r bs k (fit_init be r X g bs) = Inr t"
    and b: "fit_epoch be r bs t = Inr t'" by (rule conjunct1, rule conjunct2)
  have "epoch t = k" using epoch_fit_epochs [OF a] by (simp add: fit_init_sel)
  then show "\<exists>B. calculate_P (data_X t') bs (perplexity r) = Inr B \<and>
         sim_P t' =
           (if k < early_exaggeration_epochs r then mat_scale (early_exaggeration_value r) B
            else B)"
    using fit_epoch_sim_P [OF b] by (simp only: exaggerate_def)
qed

theorem early_exaggeration_once_witness:
  "msp_epoch_P msp_default_tsne
     ((msp_epoch toy_backend msp_default_tsne 2 ^^ 1)
        (msp_train_init toy_backend msp_default_tsne [[Fin 0], [Fin 1]] () 2
           [[Fin (1 / 10 ^ 12), Fin (1 / 2)], [Fin (1 / 2), Fin (1 / 10 ^ 12)]])) =
     [[Fin (4 / 10 ^ 12), Fin 2], [Fin 2, Fin (4 / 10 ^ 12)]] \<and>
   msp_epoch_P msp_default_tsne
     ((msp_epoch toy_backend msp_default_tsne 2 ^^ 50)
        (msp_train_init toy_backend msp_default_tsne [[Fin 0], [Fin 1]] () 2
           [[Fin (1 / 10 ^ 12), Fin (1 / 2)], [Fin (1 / 2), Fin (1 / 10 ^ 12)]])) =
     [[Fin (1 / 10 ^ 12), Fin (1 / 2)], [Fin (1 / 2), Fin (1 / 10 ^ 12)]] \<and>
   (\<exists>t t'. fit_epochs toy_backend default_tsne 2 1
               (fit_init toy_backend default_tsne [[Fin 0], [Fin 1]] () 2) = Inr t \<and>
      fit_epoch toy_backend default_tsne 2 t = Inr t' \<and>
      sim_P t' = [[Fin (4 / 10 ^ 8), Fin 2], [Fin 2, Fin (4 / 10 ^ 8)]])"
proof -
  let ?d = "msp_default_tsne :: nat msp_tsne"
  let ?r = "default_tsne :: nat tsne"
  let ?M = "[[Fin (1 / 10 ^ 12), Fin (1 / 2)], [Fin (1 / 2), Fin (1 / 10 ^ 12)]]"
  let ?u = "fit_init toy_backend ?r [[Fin 0], [Fin 1]] () 2"
  have ee: "early_exaggeration_epochs ?d = 50" "early_exaggeration_value ?d = Fin 4"
    by (simp_all add: msp_default_tsne_def msp_ParametricTSNE_def)
  have er: "early_exaggeration_epochs ?r = 50" "early_exaggeration_value ?r = Fin 4"
    by (simp_all add: default_tsne_def ParametricTSNE_def)
  note a = early_exaggeration_once [where e = ?d and be = toy_backend and bs = 2 and k = 1
      and X = "[[Fin 0], [Fin 1]]" and g = "()" and A = ?M and r = ?r, THEN conjunct1]
  note b = early_exaggeration_once [where e = ?d and be = toy_backend and bs = 2 and k = 50
      and X = "[[Fin 0], [Fin 1]]" and g = "()" and A = ?M and r = ?r, THEN conjunct1]
  have w1: "msp_epoch_P ?d ((msp_epoch toy_backend ?d 2 ^^ 1)
      (msp_train_init toy_backend ?d [[Fin 0], [Fin 1]] () 2 ?M)) =
      [[Fin (4 / 10 ^ 12), Fin 2], [Fin 2, Fin (4 / 10 ^ 12)]]"
    by (simp only: a ee) (simp add: mat_scale_def)
  have w2: "msp_epoch_P ?d ((msp_epoch toy_backend ?d 2 ^^ 50)
      (msp_train_init toy_backend ?d [[Fin 0], [Fin 1]] () 2 ?M)) = ?M"
    by (simp only: b ee) simp
  obtain t where t: "fit_epoch toy_backend ?r 2 ?u = Inr t" and dt: "data_X t = data_X ?u"
    using fit_epoch_two [where s = ?u and e = ?r]
    by (simp add: fit_init_sel perplexity_default) (elim exE conjE)
  have t1: "fit_epochs toy_backend ?r 2 1 ?u = Inr t" by (simp add: t)
  have dt': "data_X t = [[Fin 0], [Fin 1]]" by (simp add: dt fit_init_sel)
  obtain t' where t': "fit_epoch toy_backend ?r 2 t = Inr t'" and dt2: "data_X t' = data_X t"
    using fit_epoch_two [OF dt' perplexity_default(1)] by (elim exE conjE)
  note c = early_exaggeration_once [where e = ?d and be = toy_backend and bs = 2 and k = 1
      and X = "[[Fin 0], [Fin 1]]" and g = "()" and r = ?r and t = t and t' = t',
      THEN conjunct2, THEN conjunct2, THEN conjunct2, THEN conjunct1, THEN mp, OF conjI [OF t1 t']]
  then obtain B where B: "calculate_P (data_X t') 2 (perplexity ?r) = Inr B"
    and s: "sim_P t' =
      (if 1 < early_exaggeration_epochs ?r then mat_scale (early_exaggeration_value ?r) B else B)"
    by (elim exE conjE)
  have "B = [[Fin (1 / 10 ^ 8), Fin (1 / 2)], [Fin (1 / 2), Fin (1 / 10 ^ 8)]]"
    using B by (simp add: dt2 dt' perplexity_default calculate_P_two)
  then have w3: "sim_P t' = [[Fin (4 / 10 ^ 8), Fin 2], [Fin 2, Fin (4 / 10 ^ 8)]]"
    by (simp add: s er mat_scale_def)
  show ?thesis
    apply (intro conjI)
      apply (rule w1)
     apply (rule w2)
    apply (rule exI [where x = t], rule exI [where x = t'])
    apply (intro conjI)
      apply (rule t1)
     apply (rule t')
    apply (rule w3)
    done
qed

end
